theory Spec2Isabelle
  imports Complex_Main "HOL-Library.Word"
begin

unbundle bit_operations_syntax

section \<open>Arithmetic of the platform\<close>

text \<open>
  The program computes with \<open>float\<close> and \<open>double\<close>. A value of either type is modelled by
  the real number it denotes, and every place where C++ rounds (a store to a \<open>float\<close>, a
  \<open>double\<close> operation, a conversion) applies the rounding function of that format. The
  rounding functions and the library functions \<open>cos\<close>, \<open>sin\<close>, \<open>sqrtf\<close> are taken as a
  parameter, so every theorem below holds for each choice of them, exact arithmetic and
  IEEE rounding alike.
\<close>

record fpu =
  f32 :: "real \<Rightarrow> real"
  f64 :: "real \<Rightarrow> real"
  fcos :: "real \<Rightarrow> real"
  fsin :: "real \<Rightarrow> real"
  fsqrt :: "real \<Rightarrow> real"

type_synonym DWORD = "32 word"

text \<open>\<open>timeGetTime()\<close> is called anew at every use. The clock is the sequence of values
  these calls return, in call order, from the start of the process.\<close>

type_synonym clock = "nat \<Rightarrow> DWORD"

text \<open>\<open>D3DX_PI\<close> is the constant \<open>((FLOAT) 3.141592654f)\<close> of the Direct3D header.\<close>

definition D3DX_PI :: "fpu \<Rightarrow> real" where
  "D3DX_PI fp = f32 fp 3.141592654"

text \<open>A \<open>double\<close> literal stored into a \<open>float\<close>. An \<open>int\<close> literal (\<open>-3\<close>, \<open>0\<close>, \<open>2\<close>)
  converts to the same number in either format, and is written as it stands.\<close>

definition flit :: "fpu \<Rightarrow> real \<Rightarrow> real" where
  "flit fp x = f32 fp (f64 fp x)"

text \<open>The conversion \<open>(int)x\<close> truncates towards zero.\<close>

definition c_int :: "real \<Rightarrow> int" where
  "c_int x = (if 0 \<le> x then \<lfloor>x\<rfloor> else \<lceil>x\<rceil>)"

text \<open>\<open>timeGetTime() / 250.0\<close>, a \<open>double\<close>.\<close>

definition quarter :: "fpu \<Rightarrow> DWORD \<Rightarrow> real" where
  "quarter fp t = f64 fp (f64 fp (real (unat t)) / f64 fp 250)"

text \<open>\<open>(float)(timeGetTime() - pretime)\<close>: the reading is converted to \<open>float\<close> and the
  subtraction is a \<open>float\<close> subtraction.\<close>

definition elapsed :: "fpu \<Rightarrow> DWORD \<Rightarrow> real \<Rightarrow> real" where
  "elapsed fp t pre = f32 fp (f32 fp (real (unat t)) - pre)"

text \<open>\<open>0.5*(float)(timeGetTime() - pretime) / d\<close> for a \<open>double\<close> divisor \<open>d\<close>.\<close>

definition advance :: "fpu \<Rightarrow> DWORD \<Rightarrow> real \<Rightarrow> real \<Rightarrow> real" where
  "advance fp t pre d = f64 fp (f64 fp (f64 fp 0.5 * elapsed fp t pre) / d)"

text \<open>\<open>x += d\<close> and \<open>x -= d\<close> on a \<open>float\<close> variable with a \<open>double\<close> operand.\<close>

definition plus_eq :: "fpu \<Rightarrow> real \<Rightarrow> real \<Rightarrow> real" where
  "plus_eq fp x d = f32 fp (f64 fp (x + d))"

definition minus_eq :: "fpu \<Rightarrow> real \<Rightarrow> real \<Rightarrow> real" where
  "minus_eq fp x d = f32 fp (f64 fp (x - d))"

text \<open>The trail test \<open>abs((int)r + (int)(timeGetTime() / 250.0)) >= D3DX_PI / 2\<close>, and
  its variant with \<open>-\<close> for the block that spins the other way.\<close>

definition quarter_turn :: "fpu \<Rightarrow> real \<Rightarrow> DWORD \<Rightarrow> bool" where
  "quarter_turn fp r t =
     (f32 fp (of_int \<bar>c_int r + c_int (quarter fp t)\<bar>) \<ge> f32 fp (D3DX_PI fp / 2))"

definition quarter_turn_rev :: "fpu \<Rightarrow> real \<Rightarrow> DWORD \<Rightarrow> bool" where
  "quarter_turn_rev fp r t =
     (f32 fp (of_int \<bar>c_int r - c_int (quarter fp t)\<bar>) \<ge> f32 fp (D3DX_PI fp / 2))"

section \<open>Draw calls\<close>

text \<open>The renderer is outside the program. A frame is observed as the list of
  \<open>DrawPrimitive\<close> calls it makes, each with the stream source, the primitive count and
  the world matrix in force; a matrix is kept as the expression that built it.\<close>

datatype matrix =
    Translation real real real
  | RotationX real
  | RotationY real
  | RotationZ real
  | Mul matrix matrix

datatype vbuffer = g_pVB | g_pVB2

datatype draw_call = DrawPrimitive vbuffer nat matrix

section \<open>The globals of the sequencer\<close>

record state =
  I1 :: real
  I2 :: real
  I3 :: real
  K1 :: real
  k2X :: real
  k3X :: real
  k2Y :: real
  k3Y :: real
  e1 :: real
  e234 :: real
  p1 :: real
  p2 :: real
  i1_r :: real
  i2_r :: real
  i3_r :: real
  k1_r :: real
  k2_r :: real
  k3_r :: real
  e1_r :: real
  e2_r :: real
  e3_r :: real
  e4_r :: real
  p1_r :: real
  p2_r :: real
  pretime :: real
  squarePos :: "(real \<times> real \<times> real) list"
  index :: int
  compFlag :: "bool list"
  endTime :: real
  endGet :: bool
  ticks :: nat
  drawn :: "draw_call list"

text \<open>\<open>ticks\<close> counts the calls of \<open>timeGetTime()\<close> made so far and \<open>drawn\<close> is the list
  of draw calls since the last \<open>Clear\<close>; the other fields are the program's globals.\<close>

definition indexMax :: int where
  "indexMax = 1000"

definition timeGetTime :: "clock \<Rightarrow> state \<Rightarrow> DWORD \<times> state" where
  "timeGetTime clk s = (clk (ticks s), s\<lparr>ticks := ticks s + 1\<rparr>)"

definition draw :: "vbuffer \<Rightarrow> nat \<Rightarrow> matrix \<Rightarrow> state \<Rightarrow> state" where
  "draw vb n m s = s\<lparr>drawn := drawn s @ [DrawPrimitive vb n m]\<rparr>"

text \<open>The three stores \<open>squarePos[index][0..2] = ...\<close> followed by \<open>index++\<close>.\<close>

definition push_square :: "real \<times> real \<times> real \<Rightarrow> state \<Rightarrow> state" where
  "push_square e s = s\<lparr>squarePos := (squarePos s)[nat (index s) := e], index := index s + 1\<rparr>"

text \<open>The static initialisers of the globals, and the first statements of \<open>wWinMain\<close>:
  \<open>pretime = timeGetTime()\<close> and the loop that clears \<open>compFlag\<close>.\<close>

definition init_state :: "fpu \<Rightarrow> clock \<Rightarrow> state" where
  "init_state fp clk =
     \<lparr> I1 = -3, I2 = flit fp 1.5, I3 = -3, K1 = flit fp 1.5,
       k2X = f32 fp (- f64 fp 1.3), k3X = f32 fp (- f64 fp 1.1), k2Y = 0, k3Y = flit fp 0.2,
       e1 = flit fp 1.5, e234 = flit fp 0.5, p1 = flit fp 1.5,
       p2 = f32 fp (D3DX_PI fp / 2),
       i1_r = 0, i2_r = 0, i3_r = 0, k1_r = 0, k2_r = 0, k3_r = 0,
       e1_r = 0, e2_r = 0, e3_r = 0, e4_r = 0, p1_r = 0, p2_r = 0,
       pretime = f32 fp (real (unat (clk 0))),
       squarePos = replicate 1000 (0, 0, 0),
       index = 0,
       compFlag = replicate 12 False,
       endTime = 0,
       endGet = False,
       ticks = 1,
       drawn = [] \<rparr>"


section \<open>The twelve blocks of \<open>Render\<close>\<close>

text \<open>Each block is one \<open>if ... else if (!compFlag[i])\<close> statement of \<open>Render\<close>, in source
  order, with every \<open>timeGetTime()\<close> call a separate reading.\<close>

definition actor_I1 :: "fpu \<Rightarrow> clock \<Rightarrow> state \<Rightarrow> state" where
  "actor_I1 fp clk s =
     (if I1 s \<le> - f64 fp 1.9 then
        (let (t, s) = timeGetTime clk s;
             rotateMat = RotationY (f32 fp (- quarter fp t));
             moveMat = Translation (I1 s) (flit fp 1.5) (flit fp 0);
             (t, s) = timeGetTime clk s;
             s = s\<lparr>I1 := plus_eq fp (I1 s) (advance fp t (pretime s) (f64 fp 1000))\<rparr>;
             s = draw g_pVB 18 (Mul rotateMat moveMat) s;
             (t, s) = timeGetTime clk s
         in if quarter_turn fp (i1_r s) t \<and> index s < indexMax then
              (let s = push_square (I1 s, flit fp 1.5, 0) s;
                   (t, s) = timeGetTime clk s
               in s\<lparr>i1_r := - f32 fp (quarter fp t)\<rparr>)
            else s)
      else if \<not> compFlag s ! 0 then s\<lparr>compFlag := (compFlag s)[0 := True]\<rparr> else s)"

definition actor_I2 :: "fpu \<Rightarrow> clock \<Rightarrow> state \<Rightarrow> state" where
  "actor_I2 fp clk s =
     (if I2 s \<ge> - f64 fp 1.5 then
        (let (t, s) = timeGetTime clk s;
             rotateMat = RotationX (f32 fp (- quarter fp t));
             moveMat = Translation (f32 fp (- f64 fp 2.5)) (I2 s) (flit fp 0);
             (t, s) = timeGetTime clk s;
             s = s\<lparr>I2 := minus_eq fp (I2 s) (advance fp t (pretime s) (f64 fp 1000))\<rparr>;
             s = draw g_pVB 18 (Mul rotateMat moveMat) s;
             (t, s) = timeGetTime clk s
         in if quarter_turn fp (i2_r s) t \<and> index s < indexMax then
              (let s = push_square (f32 fp (- f64 fp 2.5), I2 s, 0) s;
                   (t, s) = timeGetTime clk s
               in s\<lparr>i2_r := - f32 fp (quarter fp t)\<rparr>)
            else s)
      else if \<not> compFlag s ! 1 then s\<lparr>compFlag := (compFlag s)[1 := True]\<rparr> else s)"

definition actor_I3 :: "fpu \<Rightarrow> clock \<Rightarrow> state \<Rightarrow> state" where
  "actor_I3 fp clk s =
     (if I3 s \<le> - f64 fp 1.9 then
        (let (t, s) = timeGetTime clk s;
             rotateMat = RotationY (f32 fp (- quarter fp t));
             moveMat = Translation (I3 s) (f32 fp (- f64 fp 1.5)) (flit fp 0);
             (t, s) = timeGetTime clk s;
             s = s\<lparr>I3 := plus_eq fp (I3 s) (advance fp t (pretime s) (f64 fp 1000))\<rparr>;
             s = draw g_pVB 18 (Mul rotateMat moveMat) s;
             (t, s) = timeGetTime clk s
         in if quarter_turn fp (i3_r s) t \<and> index s < indexMax then
              (let s = push_square (I3 s, f32 fp (- f64 fp 1.5), 0) s;
                   (t, s) = timeGetTime clk s
               in s\<lparr>i3_r := - f32 fp (quarter fp t)\<rparr>)
            else s)
      else if \<not> compFlag s ! 2 then s\<lparr>compFlag := (compFlag s)[2 := True]\<rparr> else s)"

definition actor_K1 :: "fpu \<Rightarrow> clock \<Rightarrow> state \<Rightarrow> state" where
  "actor_K1 fp clk s =
     (if K1 s \<ge> - f64 fp 1.7 then
        (let (t, s) = timeGetTime clk s;
             rotateMat = RotationX (f32 fp (- quarter fp t));
             moveMat = Translation (f32 fp (- f64 fp 1.3)) (K1 s) (flit fp 0);
             (t, s) = timeGetTime clk s;
             s = s\<lparr>K1 := minus_eq fp (K1 s) (advance fp t (pretime s) (f64 fp 1000))\<rparr>;
             s = draw g_pVB 18 (Mul rotateMat moveMat) s;
             (t, s) = timeGetTime clk s
         in if quarter_turn fp (k1_r s) t \<and> index s < indexMax then
              (let s = push_square (f32 fp (- f64 fp 1.3), K1 s, 0) s;
                   (t, s) = timeGetTime clk s
               in s\<lparr>k1_r := - f32 fp (quarter fp t)\<rparr>)
            else s)
      else if \<not> compFlag s ! 3 then s\<lparr>compFlag := (compFlag s)[3 := True]\<rparr> else s)"

definition actor_k2 :: "fpu \<Rightarrow> clock \<Rightarrow> state \<Rightarrow> state" where
  "actor_k2 fp clk s =
     (if k2X s \<le> 0 then
        (let rotateMat2 = RotationZ (f32 fp (D3DX_PI fp / 4));
             (t, s) = timeGetTime clk s;
             rotateMat = RotationY (f32 fp (- quarter fp t));
             moveMat = Translation (k2X s) (k2Y s) (flit fp 0);
             (t, s) = timeGetTime clk s;
             s = s\<lparr>k2Y := plus_eq fp (k2Y s)
                         (advance fp t (pretime s) (f64 fp (fsqrt fp 2 * f64 fp 1000)))\<rparr>;
             (t, s) = timeGetTime clk s;
             s = s\<lparr>k2X := plus_eq fp (k2X s)
                         (advance fp t (pretime s) (f64 fp (fsqrt fp 2 * f64 fp 1000)))\<rparr>;
             s = draw g_pVB 18 (Mul (Mul rotateMat rotateMat2) moveMat) s;
             (t, s) = timeGetTime clk s
         in if quarter_turn fp (k2_r s) t \<and> index s < indexMax then
              (let s = push_square (k2X s, k2Y s, f32 fp (D3DX_PI fp / 4)) s;
                   (t, s) = timeGetTime clk s
               in s\<lparr>k2_r := - f32 fp (quarter fp t)\<rparr>)
            else s)
      else if \<not> compFlag s ! 4 then s\<lparr>compFlag := (compFlag s)[4 := True]\<rparr> else s)"

definition actor_k3 :: "fpu \<Rightarrow> clock \<Rightarrow> state \<Rightarrow> state" where
  "actor_k3 fp clk s =
     (if k3X s \<le> 0 then
        (let rotateMat2 = RotationZ (f32 fp (- D3DX_PI fp / 3));
             (t, s) = timeGetTime clk s;
             rotateMat = RotationY (f32 fp (quarter fp t));
             moveMat = Translation (k3X s) (k3Y s) (flit fp 0);
             (t, s) = timeGetTime clk s;
             s = s\<lparr>k3Y := minus_eq fp (k3Y s)
                         (f64 fp (f64 fp (f64 fp (fsqrt fp 3 * f64 fp 0.5)
                                          * elapsed fp t (pretime s)) / f64 fp 2000))\<rparr>;
             (t, s) = timeGetTime clk s;
             s = s\<lparr>k3X := plus_eq fp (k3X s) (advance fp t (pretime s) (f64 fp 2000))\<rparr>;
             s = draw g_pVB 18 (Mul (Mul rotateMat rotateMat2) moveMat) s;
             (t, s) = timeGetTime clk s
         in if quarter_turn_rev fp (k3_r s) t \<and> index s < indexMax then
              (let s = push_square (k3X s, k3Y s, f32 fp (- D3DX_PI fp / 3)) s;
                   (t, s) = timeGetTime clk s
               in s\<lparr>k3_r := f32 fp (quarter fp t)\<rparr>)
            else s)
      else if \<not> compFlag s ! 5 then s\<lparr>compFlag := (compFlag s)[5 := True]\<rparr> else s)"

definition actor_e1 :: "fpu \<Rightarrow> clock \<Rightarrow> state \<Rightarrow> state" where
  "actor_e1 fp clk s =
     (if e1 s \<ge> - f64 fp 1.5 then
        (let (t, s) = timeGetTime clk s;
             rotateMat = RotationX (f32 fp (- quarter fp t));
             moveMat = Translation (flit fp 0.5) (e1 s) (flit fp 0);
             (t, s) = timeGetTime clk s;
             s = s\<lparr>e1 := minus_eq fp (e1 s) (advance fp t (pretime s) (f64 fp 1000))\<rparr>;
             s = draw g_pVB 18 (Mul rotateMat moveMat) s;
             (t, s) = timeGetTime clk s
         in if quarter_turn fp (e1_r s) t \<and> index s < indexMax then
              (let s = push_square (flit fp 0.5, e1 s, 0) s;
                   (t, s) = timeGetTime clk s
               in s\<lparr>e1_r := - f32 fp (quarter fp t)\<rparr>)
            else s)
      else if \<not> compFlag s ! 6 then s\<lparr>compFlag := (compFlag s)[6 := True]\<rparr> else s)"

text \<open>The next block moves three cuboids that share the coordinate \<open>e234\<close>: three
  sections run one after the other, each drawing one cuboid and making its own trail
  test; the third also moves \<open>e234\<close>. The \<open>else\<close> of the block sets the three flags
  without testing them.\<close>

definition e234_top :: "fpu \<Rightarrow> clock \<Rightarrow> state \<Rightarrow> state" where
  "e234_top fp clk s =
     (let (t, s) = timeGetTime clk s;
          rotateMat = RotationY (f32 fp (- quarter fp t));
          moveMat = Translation (e234 s) (flit fp 1.5) (flit fp 0);
          s = draw g_pVB 18 (Mul rotateMat moveMat) s;
          (t, s) = timeGetTime clk s
      in if quarter_turn fp (e2_r s) t \<and> index s < indexMax then
           (let s = push_square (e234 s, flit fp 1.5, 0) s;
                (t, s) = timeGetTime clk s
            in s\<lparr>e2_r := - f32 fp (quarter fp t)\<rparr>)
         else s)"

definition e234_middle :: "fpu \<Rightarrow> clock \<Rightarrow> state \<Rightarrow> state" where
  "e234_middle fp clk s =
     (let (t, s) = timeGetTime clk s;
          rotateMat = RotationY (f32 fp (- quarter fp t));
          moveMat = Translation (e234 s) 0 (flit fp 0);
          s = draw g_pVB 18 (Mul rotateMat moveMat) s;
          (t, s) = timeGetTime clk s
      in if quarter_turn fp (e3_r s) t \<and> index s < indexMax then
           (let s = push_square (e234 s, 0, 0) s;
                (t, s) = timeGetTime clk s
            in s\<lparr>e3_r := - f32 fp (quarter fp t)\<rparr>)
         else s)"

definition e234_bottom :: "fpu \<Rightarrow> clock \<Rightarrow> state \<Rightarrow> state" where
  "e234_bottom fp clk s =
     (let (t, s) = timeGetTime clk s;
          rotateMat = RotationY (f32 fp (- quarter fp t));
          moveMat = Translation (e234 s) (f32 fp (- f64 fp 1.5)) (flit fp 0);
          (t, s) = timeGetTime clk s;
          s = s\<lparr>e234 := plus_eq fp (e234 s) (advance fp t (pretime s) (f64 fp 1000))\<rparr>;
          s = draw g_pVB 18 (Mul rotateMat moveMat) s;
          (t, s) = timeGetTime clk s
      in if quarter_turn fp (e4_r s) t \<and> index s < indexMax then
           (let s = push_square (e234 s, f32 fp (- f64 fp 1.5), 0) s;
                (t, s) = timeGetTime clk s
            in s\<lparr>e4_r := - f32 fp (quarter fp t)\<rparr>)
         else s)"

definition actor_e234 :: "fpu \<Rightarrow> clock \<Rightarrow> state \<Rightarrow> state" where
  "actor_e234 fp clk s =
     (if e234 s \<le> f64 fp 1.8 then
        e234_bottom fp clk (e234_middle fp clk (e234_top fp clk s))
      else s\<lparr>compFlag := (compFlag s)[7 := True, 8 := True, 9 := True]\<rparr>)"

definition actor_p1 :: "fpu \<Rightarrow> clock \<Rightarrow> state \<Rightarrow> state" where
  "actor_p1 fp clk s =
     (if p1 s \<ge> - f64 fp 1.7 then
        (let (t, s) = timeGetTime clk s;
             rotateMat = RotationX (f32 fp (- quarter fp t));
             moveMat = Translation (flit fp 2.3) (p1 s) (flit fp 0);
             (t, s) = timeGetTime clk s;
             s = s\<lparr>p1 := minus_eq fp (p1 s) (advance fp t (pretime s) (f64 fp 1000))\<rparr>;
             s = draw g_pVB 18 (Mul rotateMat moveMat) s;
             (t, s) = timeGetTime clk s
         in if quarter_turn fp (p1_r s) t \<and> index s < indexMax then
              (let s = push_square (flit fp 2.3, p1 s, 0) s;
                   (t, s) = timeGetTime clk s
               in s\<lparr>p1_r := - f32 fp (quarter fp t)\<rparr>)
            else s)
      else if \<not> compFlag s ! 10 then s\<lparr>compFlag := (compFlag s)[10 := True]\<rparr> else s)"

text \<open>\<open>0.85*cos(p2) + 2.3\<close> and \<open>0.85*sin(p2) + 0.75\<close>, stored into a \<open>float\<close>.\<close>

definition arc_x :: "fpu \<Rightarrow> real \<Rightarrow> real" where
  "arc_x fp a = f32 fp (f64 fp (f64 fp (f64 fp 0.85 * fcos fp a) + f64 fp 2.3))"

definition arc_y :: "fpu \<Rightarrow> real \<Rightarrow> real" where
  "arc_y fp a = f32 fp (f64 fp (f64 fp (f64 fp 0.85 * fsin fp a) + f64 fp 0.75))"

definition actor_p2 :: "fpu \<Rightarrow> clock \<Rightarrow> state \<Rightarrow> state" where
  "actor_p2 fp clk s =
     (if fcos fp (p2 s) \<ge> - f64 fp 0.01 then
        (let rotateMat = RotationZ (p2 s);
             (t, s) = timeGetTime clk s;
             rotateMat2 = RotationX (f32 fp (- quarter fp t));
             moveMat = Translation (arc_x fp (p2 s)) (arc_y fp (p2 s)) (flit fp 0);
             (t, s) = timeGetTime clk s;
             s = s\<lparr>p2 := minus_eq fp (p2 s) (advance fp t (pretime s) (f64 fp 1000))\<rparr>;
             s = draw g_pVB 18 (Mul (Mul rotateMat2 rotateMat) moveMat) s;
             (t, s) = timeGetTime clk s
         in if quarter_turn fp (p2_r s) t \<and> index s < indexMax then
              (let s = push_square (arc_x fp (p2 s), arc_y fp (p2 s), p2 s) s;
                   (t, s) = timeGetTime clk s
               in s\<lparr>p2_r := - f32 fp (quarter fp t)\<rparr>)
            else s)
      else if \<not> compFlag s ! 11 then s\<lparr>compFlag := (compFlag s)[11 := True]\<rparr> else s)"

section \<open>The frame\<close>

text \<open>The quads drawn from \<open>g_pVB2\<close> at fixed places, at the head of the scene.\<close>

definition static_quads :: "fpu \<Rightarrow> state \<Rightarrow> state" where
  "static_quads fp s =
     (let s = draw g_pVB2 4 (Translation (-3) (flit fp 1.5) (flit fp 0)) s;
          s = draw g_pVB2 4 (Translation (-3) (f32 fp (- f64 fp 1.5)) (flit fp 0)) s;
          s = draw g_pVB2 4 (Translation (f32 fp (- f64 fp 1.3)) (flit fp 1.5) (flit fp 0)) s;
          s = draw g_pVB2 4 (Translation (flit fp 0.5) (flit fp 1.5) (flit fp 0)) s;
          s = draw g_pVB2 4 (Translation (flit fp 2.3) (flit fp 1.5) (flit fp 0)) s
      in s)"

text \<open>The loop \<open>for (int i = 0; i < index; i++)\<close> over the recorded squares.\<close>

definition trail_quad :: "fpu \<Rightarrow> real \<times> real \<times> real \<Rightarrow> draw_call" where
  "trail_quad fp e =
     (case e of (x, y, r) \<Rightarrow>
        DrawPrimitive g_pVB2 4 (Mul (RotationZ r) (Translation x y (flit fp 0))))"

definition trail_quads :: "fpu \<Rightarrow> state \<Rightarrow> state" where
  "trail_quads fp s =
     s\<lparr>drawn := drawn s @ map (trail_quad fp) (take (nat (index s)) (squarePos s))\<rparr>"

definition move_actors :: "fpu \<Rightarrow> clock \<Rightarrow> state \<Rightarrow> state" where
  "move_actors fp clk s =
     (let s = actor_I1 fp clk s;
          s = actor_I2 fp clk s;
          s = actor_I3 fp clk s;
          s = actor_K1 fp clk s;
          s = actor_k2 fp clk s;
          s = actor_k3 fp clk s;
          s = actor_e1 fp clk s;
          s = actor_e234 fp clk s;
          s = actor_p1 fp clk s;
          s = actor_p2 fp clk s
      in s)"

text \<open>\<open>pretime = timeGetTime();\<close>\<close>

definition store_pretime :: "fpu \<Rightarrow> clock \<Rightarrow> state \<Rightarrow> state" where
  "store_pretime fp clk s =
     (let (t, s) = timeGetTime clk s in s\<lparr>pretime := f32 fp (real (unat t))\<rparr>)"

text \<open>The counting loop: \<open>n\<close> iterations are left, \<open>i\<close> is the loop variable; it breaks at
  the first flag that is not set.\<close>

primrec count_flags :: "nat \<Rightarrow> nat \<Rightarrow> bool list \<Rightarrow> int \<Rightarrow> int" where
  "count_flags 0 i cf count = count"
| "count_flags (Suc n) i cf count =
     (if \<not> cf ! i then count else count_flags n (Suc i) cf (count + 1))"

text \<open>A loop \<open>for (i = 0; i < n; i++) a[i] = v\<close>.\<close>

definition fill :: "nat \<Rightarrow> 'a \<Rightarrow> 'a list \<Rightarrow> 'a list" where
  "fill n v xs = fold (\<lambda>i ys. ys[i := v]) [0..<n] xs"

text \<open>The body of \<open>if ((timeGetTime() - endTime) > 1000 * 5)\<close>.\<close>

definition reset :: "fpu \<Rightarrow> state \<Rightarrow> state" where
  "reset fp s =
     s\<lparr> I1 := -3, I2 := flit fp 1.5, I3 := -3, K1 := flit fp 1.5,
        k2X := f32 fp (- f64 fp 1.3), k3X := f32 fp (- f64 fp 1.1), k2Y := 0,
        k3Y := flit fp 0.2, e1 := flit fp 1.5, e234 := flit fp 0.5, p1 := flit fp 1.5,
        p2 := f32 fp (D3DX_PI fp / 2),
        i1_r := 0, i2_r := 0, i3_r := 0, k1_r := 0, k2_r := 0, k3_r := 0,
        e1_r := 0, e2_r := 0, e3_r := 0, e4_r := 0, p1_r := 0, p2_r := 0,
        compFlag := fill 12 False (compFlag s),
        squarePos := fill 1000 (0, 0, 0) (squarePos s),
        index := 0,
        endGet := False \<rparr>"

text \<open>The test that decides the reset: \<open>(timeGetTime() - endTime) > 1000 * 5\<close>, a
  \<open>float\<close> comparison.\<close>

definition hold_over :: "fpu \<Rightarrow> DWORD \<Rightarrow> real \<Rightarrow> bool" where
  "hold_over fp t e = (f32 fp (f32 fp (real (unat t)) - e) > 5000)"

text \<open>\<open>if (!endGet) { endTime = timeGetTime(); endGet = true; }\<close>\<close>

definition latch :: "fpu \<Rightarrow> clock \<Rightarrow> state \<Rightarrow> state" where
  "latch fp clk s =
     (if \<not> endGet s then
        (let (t, s) = timeGetTime clk s
         in s\<lparr>endTime := f32 fp (real (unat t)), endGet := True\<rparr>)
      else s)"

definition completion_gate :: "fpu \<Rightarrow> clock \<Rightarrow> state \<Rightarrow> state" where
  "completion_gate fp clk s =
     (let count = count_flags 12 0 (compFlag s) 0
      in if count \<ge> 12 then
           (let s = latch fp clk s;
                (t, s) = timeGetTime clk s
            in if hold_over fp t (endTime s) then reset fp s else s)
         else s)"

definition Clear :: "state \<Rightarrow> state" where
  "Clear s = s\<lparr>drawn := []\<rparr>"

text \<open>The scene up to and including \<open>pretime = timeGetTime()\<close>.\<close>

definition before_gate :: "fpu \<Rightarrow> clock \<Rightarrow> state \<Rightarrow> state" where
  "before_gate fp clk s =
     store_pretime fp clk (move_actors fp clk (trail_quads fp (static_quads fp (Clear s))))"

text \<open>\<open>Render\<close>. \<open>scene_ok\<close> is the outcome of \<open>BeginScene()\<close>: when it fails the frame
  clears the target and presents it, and nothing else happens.\<close>

definition Render :: "fpu \<Rightarrow> clock \<Rightarrow> bool \<Rightarrow> state \<Rightarrow> state" where
  "Render fp clk scene_ok s =
     (if scene_ok then completion_gate fp clk (before_gate fp clk s) else Clear s)"

text \<open>The states the message loop can reach: the state at start, and the state after each
  call of \<open>Render\<close>. (Messages are handled between frames and touch no sequencer global.)\<close>

inductive reachable :: "fpu \<Rightarrow> clock \<Rightarrow> state \<Rightarrow> bool" for fp clk where
  start: "reachable fp clk (init_state fp clk)"
| frame: "reachable fp clk s \<Longrightarrow> reachable fp clk (Render fp clk scene_ok s)"

section \<open>The window procedure\<close>

text \<open>A \<open>float\<close> that may be infinite or not a number: \<open>WM_SIZE\<close> divides by a value read
  from the message.\<close>

datatype fval = Finite real | PosInf | NegInf | NaN

datatype message = WM_DESTROY | WM_SIZE | WM_OTHER

text \<open>\<open>width / height\<close> for two finite \<open>float\<close>s, by the IEEE rules for a zero divisor.\<close>

definition float_div :: "fpu \<Rightarrow> real \<Rightarrow> real \<Rightarrow> fval" where
  "float_div fp x y =
     (if y = 0 then (if x = 0 then NaN else if x > 0 then PosInf else NegInf)
      else Finite (f32 fp (x / y)))"

text \<open>\<open>MsgProc\<close>, as its effect on \<open>g_aspect\<close>. \<open>lParam\<close> is a \<open>LONG_PTR\<close>; the two 16-bit
  fields convert to \<open>float\<close> without rounding.\<close>

definition MsgProc :: "fpu \<Rightarrow> message \<Rightarrow> 64 word \<Rightarrow> fval \<Rightarrow> fval" where
  "MsgProc fp msg lParam g_aspect =
     (case msg of
        WM_DESTROY \<Rightarrow> g_aspect
      | WM_SIZE \<Rightarrow>
          (let width = real (unat (lParam AND 0xFFFF));
               height = real (unat (signed_drop_bit 16 lParam AND 0xFFFF))
           in float_div fp width height)
      | WM_OTHER \<Rightarrow> g_aspect)"

section \<open>Notions the properties are stated with\<close>

text \<open>The blocks are numbered as their flags are: block \<open>i\<close> sets \<open>compFlag[i]\<close>, and the
  block of \<open>e234\<close> is the three actors 7, 8 and 9. \<open>position i\<close> lists the position
  variables of actor \<open>i\<close>, \<open>phase i\<close> is its phase reference, and \<open>moving fp i\<close> is the
  condition under which its block takes the first branch.\<close>

definition position :: "nat \<Rightarrow> state \<Rightarrow> real list" where
  "position i s =
     [[I1 s], [I2 s], [I3 s], [K1 s], [k2X s, k2Y s], [k3X s, k3Y s], [e1 s],
      [e234 s], [e234 s], [e234 s], [p1 s], [p2 s]] ! i"

definition phase :: "nat \<Rightarrow> state \<Rightarrow> real" where
  "phase i s =
     [i1_r s, i2_r s, i3_r s, k1_r s, k2_r s, k3_r s, e1_r s,
      e2_r s, e3_r s, e4_r s, p1_r s, p2_r s] ! i"

definition moving :: "fpu \<Rightarrow> nat \<Rightarrow> state \<Rightarrow> bool" where
  "moving fp i s =
     [I1 s \<le> - f64 fp 1.9, I2 s \<ge> - f64 fp 1.5, I3 s \<le> - f64 fp 1.9,
      K1 s \<ge> - f64 fp 1.7, k2X s \<le> 0, k3X s \<le> 0, e1 s \<ge> - f64 fp 1.5,
      e234 s \<le> f64 fp 1.8, e234 s \<le> f64 fp 1.8, e234 s \<le> f64 fp 1.8,
      p1 s \<ge> - f64 fp 1.7, fcos fp (p2 s) \<ge> - f64 fp 0.01] ! i"

text \<open>What every reachable state satisfies: the arrays keep their sizes, the write cursor
  stays inside the buffer, a flag that is set belongs to an actor that has stopped, and
  the three flags of the shared block agree.\<close>

definition consistent :: "fpu \<Rightarrow> state \<Rightarrow> bool" where
  "consistent fp s =
     (length (compFlag s) = 12 \<and> length (squarePos s) = 1000 \<and>
      0 \<le> index s \<and> index s \<le> indexMax \<and>
      (\<forall>i<12. compFlag s ! i \<longrightarrow> \<not> moving fp i s) \<and>
      compFlag s ! 7 = compFlag s ! 8 \<and> compFlag s ! 8 = compFlag s ! 9)"

text \<open>The frame runs the body of \<open>if ((timeGetTime() - endTime) > 1000 * 5)\<close>.\<close>

definition reset_due :: "fpu \<Rightarrow> clock \<Rightarrow> state \<Rightarrow> bool" where
  "reset_due fp clk s =
     (count_flags 12 0 (compFlag s) 0 \<ge> 12 \<and>
      hold_over fp (clk (ticks (latch fp clk s))) (endTime (latch fp clk s)))"

definition resets :: "fpu \<Rightarrow> clock \<Rightarrow> bool \<Rightarrow> state \<Rightarrow> bool" where
  "resets fp clk scene_ok s = (scene_ok \<and> reset_due fp clk (before_gate fp clk s))"

text \<open>The state of the sequencer proper: the actors, the flags, the trail and the hold
  latch. The two time stamps, the call counter and the draw list are blanked.\<close>

definition sequencer :: "state \<Rightarrow> state" where
  "sequencer s = s\<lparr>pretime := 0, endTime := 0, ticks := 0, drawn := []\<rparr>"

text \<open>A draw call of a moving cuboid: 18 primitives from \<open>g_pVB\<close>.\<close>

definition is_cuboid :: "draw_call \<Rightarrow> bool" where
  "is_cuboid d = (case d of DrawPrimitive vb n m \<Rightarrow> vb = g_pVB \<and> n = 18)"

text \<open>Two clocks agree on the \<open>n\<close> readings from call \<open>k\<close> on.\<close>

definition agree :: "clock \<Rightarrow> clock \<Rightarrow> nat \<Rightarrow> nat \<Rightarrow> bool" where
  "agree c c' k n = (\<forall>j<n. c (k + j) = c' (k + j))"

section \<open>A concrete run\<close>

text \<open>An arithmetic without rounding, with polynomial cosine and sine and four Newton
  steps for the square root, and a clock: 0 at start, 8000 during the first three frames,
  14000 from the fourth frame on.\<close>

definition cos8 :: "real \<Rightarrow> real" where
  "cos8 x = 1 - x * x / 2 * (1 - x * x / 12 * (1 - x * x / 30 * (1 - x * x / 56)))"

definition sin9 :: "real \<Rightarrow> real" where
  "sin9 x = x * (1 - x * x / 6 * (1 - x * x / 20 * (1 - x * x / 42 * (1 - x * x / 72))))"

definition newton_sqrt :: "real \<Rightarrow> real" where
  "newton_sqrt x =
     (let y = (x + 1) / 2; y = (y + x / y) / 2; y = (y + x / y) / 2; y = (y + x / y) / 2
      in y)"

definition exact_fpu :: fpu where
  "exact_fpu = \<lparr> f32 = (\<lambda>x. x), f64 = (\<lambda>x. x), fcos = cos8, fsin = sin9,
                 fsqrt = newton_sqrt \<rparr>"

definition demo_clock :: clock where
  "demo_clock n = (if n = 0 then 0 else if n < 55 then 8000 else 14000)"

text \<open>The states of the run after each frame, and the scenes in between (the state of a
  frame before its completion gate).\<close>

definition frame0 :: state where
  "frame0 = init_state exact_fpu demo_clock"

definition scene1 :: state where
  "scene1 = before_gate exact_fpu demo_clock frame0"

definition frame1 :: state where
  "frame1 = Render exact_fpu demo_clock True frame0"

definition scene2 :: state where
  "scene2 = before_gate exact_fpu demo_clock frame1"

definition frame2 :: state where
  "frame2 = Render exact_fpu demo_clock True frame1"

definition scene3 :: state where
  "scene3 = before_gate exact_fpu demo_clock frame2"

definition frame3 :: state where
  "frame3 = Render exact_fpu demo_clock True frame2"

definition scene4 :: state where
  "scene4 = before_gate exact_fpu demo_clock frame3"

definition frame4 :: state where
  "frame4 = Render exact_fpu demo_clock True frame3"

section \<open>Auxiliary facts\<close>

lemma lt12_cases:
  "(i::nat) < 12 \<Longrightarrow> i = 0 \<or> i = 1 \<or> i = 2 \<or> i = 3 \<or> i = 4 \<or> i = 5 \<or> i = 6 \<or> i = 7 \<or> i = 8 \<or> i = 9 \<or> i = 10 \<or> i = 11"
  by arith

lemma all_lt12:
  "(\<forall>i<12::nat. P i) \<longleftrightarrow>
     (P 0 \<and> P 1 \<and> P 2 \<and> P 3 \<and> P 4 \<and> P 5 \<and> P 6 \<and> P 7 \<and> P 8 \<and> P 9 \<and> P 10 \<and> P 11)"
proof
  assume "\<forall>i<12. P i"
  then show "P 0 \<and> P 1 \<and> P 2 \<and> P 3 \<and> P 4 \<and> P 5 \<and> P 6 \<and> P 7 \<and> P 8 \<and> P 9 \<and> P 10 \<and> P 11"
    by simp
next
  assume r: "P 0 \<and> P 1 \<and> P 2 \<and> P 3 \<and> P 4 \<and> P 5 \<and> P 6 \<and> P 7 \<and> P 8 \<and> P 9 \<and> P 10 \<and> P 11"
  show "\<forall>i<12. P i"
  proof (intro allI impI)
    fix i :: nat assume "i < 12"
    from lt12_cases [OF this] r show "P i" by auto
  qed
qed

lemma count_flags_bounds: "c \<le> count_flags n i cf c \<and> count_flags n i cf c \<le> c + int n"
proof (induction n arbitrary: i c)
  case 0
  show ?case by simp
next
  case (Suc n)
  from Suc [of "c + 1" "Suc i"] show ?case by auto
qed

lemma count_flags_full:
  "(count_flags n i cf c \<ge> c + int n) \<longleftrightarrow> (\<forall>j<n. cf ! (i + j))"
proof (induction n arbitrary: i c)
  case 0
  show ?case by simp
next
  case (Suc n)
  have "(\<forall>j<Suc n. cf ! (i + j)) \<longleftrightarrow> (cf ! i \<and> (\<forall>j<n. cf ! (Suc i + j)))"
    by (auto simp: less_Suc_eq_0_disj)
  with Suc [of "c + 1" "Suc i"] show ?case
    by (auto simp: add.assoc)
qed

lemma all_complete_iff: "(12 \<le> count_flags 12 0 cf 0) \<longleftrightarrow> (\<forall>i<12. cf ! i)"
  using count_flags_full [of 0 12 0 cf] by simp

lemma fill_prefix:
  "k \<le> length xs \<Longrightarrow> fold (\<lambda>i ys. ys[i := v]) [0..<k] xs = replicate k v @ drop k xs"
proof (induction k)
  case 0
  show ?case by simp
next
  case (Suc k)
  then have k: "k < length xs" by simp
  have "(replicate k v @ drop k xs)[k := v] = replicate k v @ (drop k xs)[0 := v]"
    by (simp add: list_update_append)
  also have "(drop k xs)[0 := v] = v # drop (Suc k) xs"
    using k by (simp add: Cons_nth_drop_Suc [symmetric])
  also have "replicate k v @ v # drop (Suc k) xs = replicate (Suc k) v @ drop (Suc k) xs"
    by (simp add: replicate_append_same)
  finally show ?case using Suc by simp
qed

lemma fill_all: "length xs = n \<Longrightarrow> fill n v xs = replicate n v"
  by (simp add: fill_def fill_prefix)


lemma set_flag_id [simp]: "cf ! i \<Longrightarrow> cf[i := True] = cf"
  by (metis list_update_id)

lemmas step_defs = timeGetTime_def draw_def push_square_def Let_def indexMax_def

lemma tick_simps:
  "n + 2 = Suc (Suc n)" "n + 3 = Suc (Suc (Suc n))" "n + 4 = Suc (Suc (Suc (Suc n)))"
  "n + 5 = Suc (Suc (Suc (Suc (Suc n))))"
  by simp_all

section \<open>The effect of each block\<close>

text \<open>Each block is rewritten as one simultaneous assignment per branch; the reading
  made by the \<open>k\<close>-th call of \<open>timeGetTime()\<close> inside the block is \<open>clk (ticks s + k)\<close>.\<close>

lemma actor_I1_effect:
  "actor_I1 fp clk s =
     (if I1 s \<le> - f64 fp 1.9 then
        (if quarter_turn fp (i1_r s) (clk (ticks s + 2)) \<and> index s < indexMax then
           s\<lparr>I1 := plus_eq fp (I1 s) (advance fp (clk (ticks s + 1)) (pretime s) (f64 fp 1000)),
              drawn := drawn s @ [DrawPrimitive g_pVB 18
                (Mul (RotationY (f32 fp (- quarter fp (clk (ticks s))))) (Translation (I1 s) (flit fp 1.5) (flit fp 0)))],
              squarePos := (squarePos s)[nat (index s) :=
                ((plus_eq fp (I1 s) (advance fp (clk (ticks s + 1)) (pretime s) (f64 fp 1000))), flit fp 1.5, 0)],
              index := index s + 1,
              i1_r := - f32 fp (quarter fp (clk (ticks s + 3))),
              ticks := ticks s + 4\<rparr>
         else
           s\<lparr>I1 := plus_eq fp (I1 s) (advance fp (clk (ticks s + 1)) (pretime s) (f64 fp 1000)),
              drawn := drawn s @ [DrawPrimitive g_pVB 18
                (Mul (RotationY (f32 fp (- quarter fp (clk (ticks s))))) (Translation (I1 s) (flit fp 1.5) (flit fp 0)))],
              ticks := ticks s + 3\<rparr>)
      else s\<lparr>compFlag := (compFlag s)[0 := True]\<rparr>)"
  by (simp add: actor_I1_def step_defs tick_simps cong: if_cong)

lemma actor_I1_keeps [simp]:
  "I2 (actor_I1 fp clk s) = I2 s"
  "I3 (actor_I1 fp clk s) = I3 s"
  "K1 (actor_I1 fp clk s) = K1 s"
  "k2X (actor_I1 fp clk s) = k2X s"
  "k3X (actor_I1 fp clk s) = k3X s"
  "k2Y (actor_I1 fp clk s) = k2Y s"
  "k3Y (actor_I1 fp clk s) = k3Y s"
  "e1 (actor_I1 fp clk s) = e1 s"
  "e234 (actor_I1 fp clk s) = e234 s"
  "p1 (actor_I1 fp clk s) = p1 s"
  "p2 (actor_I1 fp clk s) = p2 s"
  "i2_r (actor_I1 fp clk s) = i2_r s"
  "i3_r (actor_I1 fp clk s) = i3_r s"
  "k1_r (actor_I1 fp clk s) = k1_r s"
  "k2_r (actor_I1 fp clk s) = k2_r s"
  "k3_r (actor_I1 fp clk s) = k3_r s"
  "e1_r (actor_I1 fp clk s) = e1_r s"
  "e2_r (actor_I1 fp clk s) = e2_r s"
  "e3_r (actor_I1 fp clk s) = e3_r s"
  "e4_r (actor_I1 fp clk s) = e4_r s"
  "p1_r (actor_I1 fp clk s) = p1_r s"
  "p2_r (actor_I1 fp clk s) = p2_r s"
  "pretime (actor_I1 fp clk s) = pretime s"
  "endTime (actor_I1 fp clk s) = endTime s"
  "endGet (actor_I1 fp clk s) = endGet s"
  by (simp_all add: actor_I1_effect)

lemma actor_I1_buffer [simp]:
  "length (squarePos (actor_I1 fp clk s)) = length (squarePos s)"
  "index s \<le> indexMax \<Longrightarrow> index (actor_I1 fp clk s) \<le> indexMax"
  "index s = indexMax \<Longrightarrow> index (actor_I1 fp clk s) = indexMax"
  "index s = indexMax \<Longrightarrow> squarePos (actor_I1 fp clk s) = squarePos s"
  "index s \<le> index (actor_I1 fp clk s)"
  by (simp_all add: actor_I1_effect)

lemma actor_I1_flags:
  "compFlag (actor_I1 fp clk s) = (if I1 s \<le> - f64 fp 1.9 then compFlag s else (compFlag s)[0 := True])"
  by (simp add: actor_I1_effect)

lemma actor_I1_stopped:
  "\<not> I1 s \<le> - f64 fp 1.9 \<Longrightarrow> actor_I1 fp clk s = s\<lparr>compFlag := (compFlag s)[0 := True]\<rparr>"
  by (simp add: actor_I1_effect)

lemma actor_I2_effect:
  "actor_I2 fp clk s =
     (if - f64 fp 1.5 \<le> I2 s then
        (if quarter_turn fp (i2_r s) (clk (ticks s + 2)) \<and> index s < indexMax then
           s\<lparr>I2 := minus_eq fp (I2 s) (advance fp (clk (ticks s + 1)) (pretime s) (f64 fp 1000)),
              drawn := drawn s @ [DrawPrimitive g_pVB 18
                (Mul (RotationX (f32 fp (- quarter fp (clk (ticks s))))) (Translation (f32 fp (- f64 fp 2.5)) (I2 s) (flit fp 0)))],
              squarePos := (squarePos s)[nat (index s) :=
                (f32 fp (- f64 fp 2.5), (minus_eq fp (I2 s) (advance fp (clk (ticks s + 1)) (pretime s) (f64 fp 1000))), 0)],
              index := index s + 1,
              i2_r := - f32 fp (quarter fp (clk (ticks s + 3))),
              ticks := ticks s + 4\<rparr>
         else
           s\<lparr>I2 := minus_eq fp (I2 s) (advance fp (clk (ticks s + 1)) (pretime s) (f64 fp 1000)),
              drawn := drawn s @ [DrawPrimitive g_pVB 18
                (Mul (RotationX (f32 fp (- quarter fp (clk (ticks s))))) (Translation (f32 fp (- f64 fp 2.5)) (I2 s) (flit fp 0)))],
              ticks := ticks s + 3\<rparr>)
      else s\<lparr>compFlag := (compFlag s)[1 := True]\<rparr>)"
  by (simp add: actor_I2_def step_defs tick_simps cong: if_cong)

lemma actor_I2_keeps [simp]:
  "I1 (actor_I2 fp clk s) = I1 s"
  "I3 (actor_I2 fp clk s) = I3 s"
  "K1 (actor_I2 fp clk s) = K1 s"
  "k2X (actor_I2 fp clk s) = k2X s"
  "k3X (actor_I2 fp clk s) = k3X s"
  "k2Y (actor_I2 fp clk s) = k2Y s"
  "k3Y (actor_I2 fp clk s) = k3Y s"
  "e1 (actor_I2 fp clk s) = e1 s"
  "e234 (actor_I2 fp clk s) = e234 s"
  "p1 (actor_I2 fp clk s) = p1 s"
  "p2 (actor_I2 fp clk s) = p2 s"
  "i1_r (actor_I2 fp clk s) = i1_r s"
  "i3_r (actor_I2 fp clk s) = i3_r s"
  "k1_r (actor_I2 fp clk s) = k1_r s"
  "k2_r (actor_I2 fp clk s) = k2_r s"
  "k3_r (actor_I2 fp clk s) = k3_r s"
  "e1_r (actor_I2 fp clk s) = e1_r s"
  "e2_r (actor_I2 fp clk s) = e2_r s"
  "e3_r (actor_I2 fp clk s) = e3_r s"
  "e4_r (actor_I2 fp clk s) = e4_r s"
  "p1_r (actor_I2 fp clk s) = p1_r s"
  "p2_r (actor_I2 fp clk s) = p2_r s"
  "pretime (actor_I2 fp clk s) = pretime s"
  "endTime (actor_I2 fp clk s) = endTime s"
  "endGet (actor_I2 fp clk s) = endGet s"
  by (simp_all add: actor_I2_effect)

lemma actor_I2_buffer [simp]:
  "length (squarePos (actor_I2 fp clk s)) = length (squarePos s)"
  "index s \<le> indexMax \<Longrightarrow> index (actor_I2 fp clk s) \<le> indexMax"
  "index s = indexMax \<Longrightarrow> index (actor_I2 fp clk s) = indexMax"
  "index s = indexMax \<Longrightarrow> squarePos (actor_I2 fp clk s) = squarePos s"
  "index s \<le> index (actor_I2 fp clk s)"
  by (simp_all add: actor_I2_effect)

lemma actor_I2_flags:
  "compFlag (actor_I2 fp clk s) = (if - f64 fp 1.5 \<le> I2 s then compFlag s else (compFlag s)[1 := True])"
  by (simp add: actor_I2_effect)

lemma actor_I2_stopped:
  "\<not> - f64 fp 1.5 \<le> I2 s \<Longrightarrow> actor_I2 fp clk s = s\<lparr>compFlag := (compFlag s)[1 := True]\<rparr>"
  by (simp add: actor_I2_effect)

lemma actor_I3_effect:
  "actor_I3 fp clk s =
     (if I3 s \<le> - f64 fp 1.9 then
        (if quarter_turn fp (i3_r s) (clk (ticks s + 2)) \<and> index s < indexMax then
           s\<lparr>I3 := plus_eq fp (I3 s) (advance fp (clk (ticks s + 1)) (pretime s) (f64 fp 1000)),
              drawn := drawn s @ [DrawPrimitive g_pVB 18
                (Mul (RotationY (f32 fp (- quarter fp (clk (ticks s))))) (Translation (I3 s) (f32 fp (- f64 fp 1.5)) (flit fp 0)))],
              squarePos := (squarePos s)[nat (index s) :=
                ((plus_eq fp (I3 s) (advance fp (clk (ticks s + 1)) (pretime s) (f64 fp 1000))), f32 fp (- f64 fp 1.5), 0)],
              index := index s + 1,
              i3_r := - f32 fp (quarter fp (clk (ticks s + 3))),
              ticks := ticks s + 4\<rparr>
         else
           s\<lparr>I3 := plus_eq fp (I3 s) (advance fp (clk (ticks s + 1)) (pretime s) (f64 fp 1000)),
              drawn := drawn s @ [DrawPrimitive g_pVB 18
                (Mul (RotationY (f32 fp (- quarter fp (clk (ticks s))))) (Translation (I3 s) (f32 fp (- f64 fp 1.5)) (flit fp 0)))],
              ticks := ticks s + 3\<rparr>)
      else s\<lparr>compFlag := (compFlag s)[2 := True]\<rparr>)"
  by (simp add: actor_I3_def step_defs tick_simps cong: if_cong)

lemma actor_I3_keeps [simp]:
  "I1 (actor_I3 fp clk s) = I1 s"
  "I2 (actor_I3 fp clk s) = I2 s"
  "K1 (actor_I3 fp clk s) = K1 s"
  "k2X (actor_I3 fp clk s) = k2X s"
  "k3X (actor_I3 fp clk s) = k3X s"
  "k2Y (actor_I3 fp clk s) = k2Y s"
  "k3Y (actor_I3 fp clk s) = k3Y s"
  "e1 (actor_I3 fp clk s) = e1 s"
  "e234 (actor_I3 fp clk s) = e234 s"
  "p1 (actor_I3 fp clk s) = p1 s"
  "p2 (actor_I3 fp clk s) = p2 s"
  "i1_r (actor_I3 fp clk s) = i1_r s"
  "i2_r (actor_I3 fp clk s) = i2_r s"
  "k1_r (actor_I3 fp clk s) = k1_r s"
  "k2_r (actor_I3 fp clk s) = k2_r s"
  "k3_r (actor_I3 fp clk s) = k3_r s"
  "e1_r (actor_I3 fp clk s) = e1_r s"
  "e2_r (actor_I3 fp clk s) = e2_r s"
  "e3_r (actor_I3 fp clk s) = e3_r s"
  "e4_r (actor_I3 fp clk s) = e4_r s"
  "p1_r (actor_I3 fp clk s) = p1_r s"
  "p2_r (actor_I3 fp clk s) = p2_r s"
  "pretime (actor_I3 fp clk s) = pretime s"
  "endTime (actor_I3 fp clk s) = endTime s"
  "endGet (actor_I3 fp clk s) = endGet s"
  by (simp_all add: actor_I3_effect)

lemma actor_I3_buffer [simp]:
  "length (squarePos (actor_I3 fp clk s)) = length (squarePos s)"
  "index s \<le> indexMax \<Longrightarrow> index (actor_I3 fp clk s) \<le> indexMax"
  "index s = indexMax \<Longrightarrow> index (actor_I3 fp clk s) = indexMax"
  "index s = indexMax \<Longrightarrow> squarePos (actor_I3 fp clk s) = squarePos s"
  "index s \<le> index (actor_I3 fp clk s)"
  by (simp_all add: actor_I3_effect)

lemma actor_I3_flags:
  "compFlag (actor_I3 fp clk s) = (if I3 s \<le> - f64 fp 1.9 then compFlag s else (compFlag s)[2 := True])"
  by (simp add: actor_I3_effect)

lemma actor_I3_stopped:
  "\<not> I3 s \<le> - f64 fp 1.9 \<Longrightarrow> actor_I3 fp clk s = s\<lparr>compFlag := (compFlag s)[2 := True]\<rparr>"
  by (simp add: actor_I3_effect)

lemma actor_K1_effect:
  "actor_K1 fp clk s =
     (if - f64 fp 1.7 \<le> K1 s then
        (if quarter_turn fp (k1_r s) (clk (ticks s + 2)) \<and> index s < indexMax then
           s\<lparr>K1 := minus_eq fp (K1 s) (advance fp (clk (ticks s + 1)) (pretime s) (f64 fp 1000)),
              drawn := drawn s @ [DrawPrimitive g_pVB 18
                (Mul (RotationX (f32 fp (- quarter fp (clk (ticks s))))) (Translation (f32 fp (- f64 fp 1.3)) (K1 s) (flit fp 0)))],
              squarePos := (squarePos s)[nat (index s) :=
                (f32 fp (- f64 fp 1.3), (minus_eq fp (K1 s) (advance fp (clk (ticks s + 1)) (pretime s) (f64 fp 1000))), 0)],
              index := index s + 1,
              k1_r := - f32 fp (quarter fp (clk (ticks s + 3))),
              ticks := ticks s + 4\<rparr>
         else
           s\<lparr>K1 := minus_eq fp (K1 s) (advance fp (clk (ticks s + 1)) (pretime s) (f64 fp 1000)),
              drawn := drawn s @ [DrawPrimitive g_pVB 18
                (Mul (RotationX (f32 fp (- quarter fp (clk (ticks s))))) (Translation (f32 fp (- f64 fp 1.3)) (K1 s) (flit fp 0)))],
              ticks := ticks s + 3\<rparr>)
      else s\<lparr>compFlag := (compFlag s)[3 := True]\<rparr>)"
  by (simp add: actor_K1_def step_defs tick_simps cong: if_cong)

lemma actor_K1_keeps [simp]:
  "I1 (actor_K1 fp clk s) = I1 s"
  "I2 (actor_K1 fp clk s) = I2 s"
  "I3 (actor_K1 fp clk s) = I3 s"
  "k2X (actor_K1 fp clk s) = k2X s"
  "k3X (actor_K1 fp clk s) = k3X s"
  "k2Y (actor_K1 fp clk s) = k2Y s"
  "k3Y (actor_K1 fp clk s) = k3Y s"
  "e1 (actor_K1 fp clk s) = e1 s"
  "e234 (actor_K1 fp clk s) = e234 s"
  "p1 (actor_K1 fp clk s) = p1 s"
  "p2 (actor_K1 fp clk s) = p2 s"
  "i1_r (actor_K1 fp clk s) = i1_r s"
  "i2_r (actor_K1 fp clk s) = i2_r s"
  "i3_r (actor_K1 fp clk s) = i3_r s"
  "k2_r (actor_K1 fp clk s) = k2_r s"
  "k3_r (actor_K1 fp clk s) = k3_r s"
  "e1_r (actor_K1 fp clk s) = e1_r s"
  "e2_r (actor_K1 fp clk s) = e2_r s"
  "e3_r (actor_K1 fp clk s) = e3_r s"
  "e4_r (actor_K1 fp clk s) = e4_r s"
  "p1_r (actor_K1 fp clk s) = p1_r s"
  "p2_r (actor_K1 fp clk s) = p2_r s"
  "pretime (actor_K1 fp clk s) = pretime s"
  "endTime (actor_K1 fp clk s) = endTime s"
  "endGet (actor_K1 fp clk s) = endGet s"
  by (simp_all add: actor_K1_effect)

lemma actor_K1_buffer [simp]:
  "length (squarePos (actor_K1 fp clk s)) = length (squarePos s)"
  "index s \<le> indexMax \<Longrightarrow> index (actor_K1 fp clk s) \<le> indexMax"
  "index s = indexMax \<Longrightarrow> index (actor_K1 fp clk s) = indexMax"
  "index s = indexMax \<Longrightarrow> squarePos (actor_K1 fp clk s) = squarePos s"
  "index s \<le> index (actor_K1 fp clk s)"
  by (simp_all add: actor_K1_effect)

lemma actor_K1_flags:
  "compFlag (actor_K1 fp clk s) = (if - f64 fp 1.7 \<le> K1 s then compFlag s else (compFlag s)[3 := True])"
  by (simp add: actor_K1_effect)

lemma actor_K1_stopped:
  "\<not> - f64 fp 1.7 \<le> K1 s \<Longrightarrow> actor_K1 fp clk s = s\<lparr>compFlag := (compFlag s)[3 := True]\<rparr>"
  by (simp add: actor_K1_effect)

lemma actor_k2_effect:
  "actor_k2 fp clk s =
     (if k2X s \<le> 0 then
        (if quarter_turn fp (k2_r s) (clk (ticks s + 3)) \<and> index s < indexMax then
           s\<lparr>k2Y := plus_eq fp (k2Y s) (advance fp (clk (ticks s + 1)) (pretime s) (f64 fp (fsqrt fp 2 * f64 fp 1000))),
              k2X := plus_eq fp (k2X s) (advance fp (clk (ticks s + 2)) (pretime s) (f64 fp (fsqrt fp 2 * f64 fp 1000))),
              drawn := drawn s @ [DrawPrimitive g_pVB 18
                (Mul (Mul (RotationY (f32 fp (- quarter fp (clk (ticks s))))) (RotationZ (f32 fp (D3DX_PI fp / 4)))) (Translation (k2X s) (k2Y s) (flit fp 0)))],
              squarePos := (squarePos s)[nat (index s) :=
                (plus_eq fp (k2X s) (advance fp (clk (ticks s + 2)) (pretime s) (f64 fp (fsqrt fp 2 * f64 fp 1000))), plus_eq fp (k2Y s) (advance fp (clk (ticks s + 1)) (pretime s) (f64 fp (fsqrt fp 2 * f64 fp 1000))), f32 fp (D3DX_PI fp / 4))],
              index := index s + 1,
              k2_r := - f32 fp (quarter fp (clk (ticks s + 4))),
              ticks := ticks s + 5\<rparr>
         else
           s\<lparr>k2Y := plus_eq fp (k2Y s) (advance fp (clk (ticks s + 1)) (pretime s) (f64 fp (fsqrt fp 2 * f64 fp 1000))),
              k2X := plus_eq fp (k2X s) (advance fp (clk (ticks s + 2)) (pretime s) (f64 fp (fsqrt fp 2 * f64 fp 1000))),
              drawn := drawn s @ [DrawPrimitive g_pVB 18
                (Mul (Mul (RotationY (f32 fp (- quarter fp (clk (ticks s))))) (RotationZ (f32 fp (D3DX_PI fp / 4)))) (Translation (k2X s) (k2Y s) (flit fp 0)))],
              ticks := ticks s + 4\<rparr>)
      else s\<lparr>compFlag := (compFlag s)[4 := True]\<rparr>)"
  by (simp add: actor_k2_def step_defs tick_simps cong: if_cong)

lemma actor_k2_keeps [simp]:
  "I1 (actor_k2 fp clk s) = I1 s"
  "I2 (actor_k2 fp clk s) = I2 s"
  "I3 (actor_k2 fp clk s) = I3 s"
  "K1 (actor_k2 fp clk s) = K1 s"
  "k3X (actor_k2 fp clk s) = k3X s"
  "k3Y (actor_k2 fp clk s) = k3Y s"
  "e1 (actor_k2 fp clk s) = e1 s"
  "e234 (actor_k2 fp clk s) = e234 s"
  "p1 (actor_k2 fp clk s) = p1 s"
  "p2 (actor_k2 fp clk s) = p2 s"
  "i1_r (actor_k2 fp clk s) = i1_r s"
  "i2_r (actor_k2 fp clk s) = i2_r s"
  "i3_r (actor_k2 fp clk s) = i3_r s"
  "k1_r (actor_k2 fp clk s) = k1_r s"
  "k3_r (actor_k2 fp clk s) = k3_r s"
  "e1_r (actor_k2 fp clk s) = e1_r s"
  "e2_r (actor_k2 fp clk s) = e2_r s"
  "e3_r (actor_k2 fp clk s) = e3_r s"
  "e4_r (actor_k2 fp clk s) = e4_r s"
  "p1_r (actor_k2 fp clk s) = p1_r s"
  "p2_r (actor_k2 fp clk s) = p2_r s"
  "pretime (actor_k2 fp clk s) = pretime s"
  "endTime (actor_k2 fp clk s) = endTime s"
  "endGet (actor_k2 fp clk s) = endGet s"
  by (simp_all add: actor_k2_effect)

lemma actor_k2_buffer [simp]:
  "length (squarePos (actor_k2 fp clk s)) = length (squarePos s)"
  "index s \<le> indexMax \<Longrightarrow> index (actor_k2 fp clk s) \<le> indexMax"
  "index s = indexMax \<Longrightarrow> index (actor_k2 fp clk s) = indexMax"
  "index s = indexMax \<Longrightarrow> squarePos (actor_k2 fp clk s) = squarePos s"
  "index s \<le> index (actor_k2 fp clk s)"
  by (simp_all add: actor_k2_effect)

lemma actor_k2_flags:
  "compFlag (actor_k2 fp clk s) = (if k2X s \<le> 0 then compFlag s else (compFlag s)[4 := True])"
  by (simp add: actor_k2_effect)

lemma actor_k2_stopped:
  "\<not> k2X s \<le> 0 \<Longrightarrow> actor_k2 fp clk s = s\<lparr>compFlag := (compFlag s)[4 := True]\<rparr>"
  by (simp add: actor_k2_effect)

lemma actor_k3_effect:
  "actor_k3 fp clk s =
     (if k3X s \<le> 0 then
        (if quarter_turn_rev fp (k3_r s) (clk (ticks s + 3)) \<and> index s < indexMax then
           s\<lparr>k3Y := minus_eq fp (k3Y s) (f64 fp (f64 fp (f64 fp (fsqrt fp 3 * f64 fp 0.5) * elapsed fp (clk (ticks s + 1)) (pretime s)) / f64 fp 2000)),
              k3X := plus_eq fp (k3X s) (advance fp (clk (ticks s + 2)) (pretime s) (f64 fp 2000)),
              drawn := drawn s @ [DrawPrimitive g_pVB 18
                (Mul (Mul (RotationY (f32 fp (quarter fp (clk (ticks s))))) (RotationZ (f32 fp (- D3DX_PI fp / 3)))) (Translation (k3X s) (k3Y s) (flit fp 0)))],
              squarePos := (squarePos s)[nat (index s) :=
                (plus_eq fp (k3X s) (advance fp (clk (ticks s + 2)) (pretime s) (f64 fp 2000)), minus_eq fp (k3Y s) (f64 fp (f64 fp (f64 fp (fsqrt fp 3 * f64 fp 0.5) * elapsed fp (clk (ticks s + 1)) (pretime s)) / f64 fp 2000)), f32 fp (- D3DX_PI fp / 3))],
              index := index s + 1,
              k3_r := f32 fp (quarter fp (clk (ticks s + 4))),
              ticks := ticks s + 5\<rparr>
         else
           s\<lparr>k3Y := minus_eq fp (k3Y s) (f64 fp (f64 fp (f64 fp (fsqrt fp 3 * f64 fp 0.5) * elapsed fp (clk (ticks s + 1)) (pretime s)) / f64 fp 2000)),
              k3X := plus_eq fp (k3X s) (advance fp (clk (ticks s + 2)) (pretime s) (f64 fp 2000)),
              drawn := drawn s @ [DrawPrimitive g_pVB 18
                (Mul (Mul (RotationY (f32 fp (quarter fp (clk (ticks s))))) (RotationZ (f32 fp (- D3DX_PI fp / 3)))) (Translation (k3X s) (k3Y s) (flit fp 0)))],
              ticks := ticks s + 4\<rparr>)
      else s\<lparr>compFlag := (compFlag s)[5 := True]\<rparr>)"
  by (simp add: actor_k3_def step_defs tick_simps cong: if_cong)

lemma actor_k3_keeps [simp]:
  "I1 (actor_k3 fp clk s) = I1 s"
  "I2 (actor_k3 fp clk s) = I2 s"
  "I3 (actor_k3 fp clk s) = I3 s"
  "K1 (actor_k3 fp clk s) = K1 s"
  "k2X (actor_k3 fp clk s) = k2X s"
  "k2Y (actor_k3 fp clk s) = k2Y s"
  "e1 (actor_k3 fp clk s) = e1 s"
  "e234 (actor_k3 fp clk s) = e234 s"
  "p1 (actor_k3 fp clk s) = p1 s"
  "p2 (actor_k3 fp clk s) = p2 s"
  "i1_r (actor_k3 fp clk s) = i1_r s"
  "i2_r (actor_k3 fp clk s) = i2_r s"
  "i3_r (actor_k3 fp clk s) = i3_r s"
  "k1_r (actor_k3 fp clk s) = k1_r s"
  "k2_r (actor_k3 fp clk s) = k2_r s"
  "e1_r (actor_k3 fp clk s) = e1_r s"
  "e2_r (actor_k3 fp clk s) = e2_r s"
  "e3_r (actor_k3 fp clk s) = e3_r s"
  "e4_r (actor_k3 fp clk s) = e4_r s"
  "p1_r (actor_k3 fp clk s) = p1_r s"
  "p2_r (actor_k3 fp clk s) = p2_r s"
  "pretime (actor_k3 fp clk s) = pretime s"
  "endTime (actor_k3 fp clk s) = endTime s"
  "endGet (actor_k3 fp clk s) = endGet s"
  by (simp_all add: actor_k3_effect)

lemma actor_k3_buffer [simp]:
  "length (squarePos (actor_k3 fp clk s)) = length (squarePos s)"
  "index s \<le> indexMax \<Longrightarrow> index (actor_k3 fp clk s) \<le> indexMax"
  "index s = indexMax \<Longrightarrow> index (actor_k3 fp clk s) = indexMax"
  "index s = indexMax \<Longrightarrow> squarePos (actor_k3 fp clk s) = squarePos s"
  "index s \<le> index (actor_k3 fp clk s)"
  by (simp_all add: actor_k3_effect)

lemma actor_k3_flags:
  "compFlag (actor_k3 fp clk s) = (if k3X s \<le> 0 then compFlag s else (compFlag s)[5 := True])"
  by (simp add: actor_k3_effect)

lemma actor_k3_stopped:
  "\<not> k3X s \<le> 0 \<Longrightarrow> actor_k3 fp clk s = s\<lparr>compFlag := (compFlag s)[5 := True]\<rparr>"
  by (simp add: actor_k3_effect)

lemma actor_e1_effect:
  "actor_e1 fp clk s =
     (if - f64 fp 1.5 \<le> e1 s then
        (if quarter_turn fp (e1_r s) (clk (ticks s + 2)) \<and> index s < indexMax then
           s\<lparr>e1 := minus_eq fp (e1 s) (advance fp (clk (ticks s + 1)) (pretime s) (f64 fp 1000)),
              drawn := drawn s @ [DrawPrimitive g_pVB 18
                (Mul (RotationX (f32 fp (- quarter fp (clk (ticks s))))) (Translation (flit fp 0.5) (e1 s) (flit fp 0)))],
              squarePos := (squarePos s)[nat (index s) :=
                (flit fp 0.5, (minus_eq fp (e1 s) (advance fp (clk (ticks s + 1)) (pretime s) (f64 fp 1000))), 0)],
              index := index s + 1,
              e1_r := - f32 fp (quarter fp (clk (ticks s + 3))),
              ticks := ticks s + 4\<rparr>
         else
           s\<lparr>e1 := minus_eq fp (e1 s) (advance fp (clk (ticks s + 1)) (pretime s) (f64 fp 1000)),
              drawn := drawn s @ [DrawPrimitive g_pVB 18
                (Mul (RotationX (f32 fp (- quarter fp (clk (ticks s))))) (Translation (flit fp 0.5) (e1 s) (flit fp 0)))],
              ticks := ticks s + 3\<rparr>)
      else s\<lparr>compFlag := (compFlag s)[6 := True]\<rparr>)"
  by (simp add: actor_e1_def step_defs tick_simps cong: if_cong)

lemma actor_e1_keeps [simp]:
  "I1 (actor_e1 fp clk s) = I1 s"
  "I2 (actor_e1 fp clk s) = I2 s"
  "I3 (actor_e1 fp clk s) = I3 s"
  "K1 (actor_e1 fp clk s) = K1 s"
  "k2X (actor_e1 fp clk s) = k2X s"
  "k3X (actor_e1 fp clk s) = k3X s"
  "k2Y (actor_e1 fp clk s) = k2Y s"
  "k3Y (actor_e1 fp clk s) = k3Y s"
  "e234 (actor_e1 fp clk s) = e234 s"
  "p1 (actor_e1 fp clk s) = p1 s"
  "p2 (actor_e1 fp clk s) = p2 s"
  "i1_r (actor_e1 fp clk s) = i1_r s"
  "i2_r (actor_e1 fp clk s) = i2_r s"
  "i3_r (actor_e1 fp clk s) = i3_r s"
  "k1_r (actor_e1 fp clk s) = k1_r s"
  "k2_r (actor_e1 fp clk s) = k2_r s"
  "k3_r (actor_e1 fp clk s) = k3_r s"
  "e2_r (actor_e1 fp clk s) = e2_r s"
  "e3_r (actor_e1 fp clk s) = e3_r s"
  "e4_r (actor_e1 fp clk s) = e4_r s"
  "p1_r (actor_e1 fp clk s) = p1_r s"
  "p2_r (actor_e1 fp clk s) = p2_r s"
  "pretime (actor_e1 fp clk s) = pretime s"
  "endTime (actor_e1 fp clk s) = endTime s"
  "endGet (actor_e1 fp clk s) = endGet s"
  by (simp_all add: actor_e1_effect)

lemma actor_e1_buffer [simp]:
  "length (squarePos (actor_e1 fp clk s)) = length (squarePos s)"
  "index s \<le> indexMax \<Longrightarrow> index (actor_e1 fp clk s) \<le> indexMax"
  "index s = indexMax \<Longrightarrow> index (actor_e1 fp clk s) = indexMax"
  "index s = indexMax \<Longrightarrow> squarePos (actor_e1 fp clk s) = squarePos s"
  "index s \<le> index (actor_e1 fp clk s)"
  by (simp_all add: actor_e1_effect)

lemma actor_e1_flags:
  "compFlag (actor_e1 fp clk s) = (if - f64 fp 1.5 \<le> e1 s then compFlag s else (compFlag s)[6 := True])"
  by (simp add: actor_e1_effect)

lemma actor_e1_stopped:
  "\<not> - f64 fp 1.5 \<le> e1 s \<Longrightarrow> actor_e1 fp clk s = s\<lparr>compFlag := (compFlag s)[6 := True]\<rparr>"
  by (simp add: actor_e1_effect)

lemma e234_top_effect:
  "e234_top fp clk s =
     (if quarter_turn fp (e2_r s) (clk (ticks s + 1)) \<and> index s < indexMax then
           s\<lparr>drawn := drawn s @ [DrawPrimitive g_pVB 18
                (Mul (RotationY (f32 fp (- quarter fp (clk (ticks s))))) (Translation (e234 s) (flit fp 1.5) (flit fp 0)))],
              squarePos := (squarePos s)[nat (index s) :=
                (e234 s, flit fp 1.5, 0)],
              index := index s + 1,
              e2_r := - f32 fp (quarter fp (clk (ticks s + 2))),
              ticks := ticks s + 3\<rparr>
         else
           s\<lparr>drawn := drawn s @ [DrawPrimitive g_pVB 18
                (Mul (RotationY (f32 fp (- quarter fp (clk (ticks s))))) (Translation (e234 s) (flit fp 1.5) (flit fp 0)))],
              ticks := ticks s + 2\<rparr>)"
  by (simp add: e234_top_def step_defs tick_simps cong: if_cong)

lemma e234_top_keeps [simp]:
  "I1 (e234_top fp clk s) = I1 s"
  "I2 (e234_top fp clk s) = I2 s"
  "I3 (e234_top fp clk s) = I3 s"
  "K1 (e234_top fp clk s) = K1 s"
  "k2X (e234_top fp clk s) = k2X s"
  "k3X (e234_top fp clk s) = k3X s"
  "k2Y (e234_top fp clk s) = k2Y s"
  "k3Y (e234_top fp clk s) = k3Y s"
  "e1 (e234_top fp clk s) = e1 s"
  "e234 (e234_top fp clk s) = e234 s"
  "p1 (e234_top fp clk s) = p1 s"
  "p2 (e234_top fp clk s) = p2 s"
  "i1_r (e234_top fp clk s) = i1_r s"
  "i2_r (e234_top fp clk s) = i2_r s"
  "i3_r (e234_top fp clk s) = i3_r s"
  "k1_r (e234_top fp clk s) = k1_r s"
  "k2_r (e234_top fp clk s) = k2_r s"
  "k3_r (e234_top fp clk s) = k3_r s"
  "e1_r (e234_top fp clk s) = e1_r s"
  "e3_r (e234_top fp clk s) = e3_r s"
  "e4_r (e234_top fp clk s) = e4_r s"
  "p1_r (e234_top fp clk s) = p1_r s"
  "p2_r (e234_top fp clk s) = p2_r s"
  "pretime (e234_top fp clk s) = pretime s"
  "endTime (e234_top fp clk s) = endTime s"
  "endGet (e234_top fp clk s) = endGet s"
  "compFlag (e234_top fp clk s) = compFlag s"
  by (simp_all add: e234_top_effect)

lemma e234_top_buffer [simp]:
  "length (squarePos (e234_top fp clk s)) = length (squarePos s)"
  "index s \<le> indexMax \<Longrightarrow> index (e234_top fp clk s) \<le> indexMax"
  "index s = indexMax \<Longrightarrow> index (e234_top fp clk s) = indexMax"
  "index s = indexMax \<Longrightarrow> squarePos (e234_top fp clk s) = squarePos s"
  "index s \<le> index (e234_top fp clk s)"
  by (simp_all add: e234_top_effect)

lemma e234_middle_effect:
  "e234_middle fp clk s =
     (if quarter_turn fp (e3_r s) (clk (ticks s + 1)) \<and> index s < indexMax then
           s\<lparr>drawn := drawn s @ [DrawPrimitive g_pVB 18
                (Mul (RotationY (f32 fp (- quarter fp (clk (ticks s))))) (Translation (e234 s) 0 (flit fp 0)))],
              squarePos := (squarePos s)[nat (index s) :=
                (e234 s, 0, 0)],
              index := index s + 1,
              e3_r := - f32 fp (quarter fp (clk (ticks s + 2))),
              ticks := ticks s + 3\<rparr>
         else
           s\<lparr>drawn := drawn s @ [DrawPrimitive g_pVB 18
                (Mul (RotationY (f32 fp (- quarter fp (clk (ticks s))))) (Translation (e234 s) 0 (flit fp 0)))],
              ticks := ticks s + 2\<rparr>)"
  by (simp add: e234_middle_def step_defs tick_simps cong: if_cong)

lemma e234_middle_keeps [simp]:
  "I1 (e234_middle fp clk s) = I1 s"
  "I2 (e234_middle fp clk s) = I2 s"
  "I3 (e234_middle fp clk s) = I3 s"
  "K1 (e234_middle fp clk s) = K1 s"
  "k2X (e234_middle fp clk s) = k2X s"
  "k3X (e234_middle fp clk s) = k3X s"
  "k2Y (e234_middle fp clk s) = k2Y s"
  "k3Y (e234_middle fp clk s) = k3Y s"
  "e1 (e234_middle fp clk s) = e1 s"
  "e234 (e234_middle fp clk s) = e234 s"
  "p1 (e234_middle fp clk s) = p1 s"
  "p2 (e234_middle fp clk s) = p2 s"
  "i1_r (e234_middle fp clk s) = i1_r s"
  "i2_r (e234_middle fp clk s) = i2_r s"
  "i3_r (e234_middle fp clk s) = i3_r s"
  "k1_r (e234_middle fp clk s) = k1_r s"
  "k2_r (e234_middle fp clk s) = k2_r s"
  "k3_r (e234_middle fp clk s) = k3_r s"
  "e1_r (e234_middle fp clk s) = e1_r s"
  "e2_r (e234_middle fp clk s) = e2_r s"
  "e4_r (e234_middle fp clk s) = e4_r s"
  "p1_r (e234_middle fp clk s) = p1_r s"
  "p2_r (e234_middle fp clk s) = p2_r s"
  "pretime (e234_middle fp clk s) = pretime s"
  "endTime (e234_middle fp clk s) = endTime s"
  "endGet (e234_middle fp clk s) = endGet s"
  "compFlag (e234_middle fp clk s) = compFlag s"
  by (simp_all add: e234_middle_effect)

lemma e234_middle_buffer [simp]:
  "length (squarePos (e234_middle fp clk s)) = length (squarePos s)"
  "index s \<le> indexMax \<Longrightarrow> index (e234_middle fp clk s) \<le> indexMax"
  "index s = indexMax \<Longrightarrow> index (e234_middle fp clk s) = indexMax"
  "index s = indexMax \<Longrightarrow> squarePos (e234_middle fp clk s) = squarePos s"
  "index s \<le> index (e234_middle fp clk s)"
  by (simp_all add: e234_middle_effect)

lemma e234_bottom_effect:
  "e234_bottom fp clk s =
     (if quarter_turn fp (e4_r s) (clk (ticks s + 2)) \<and> index s < indexMax then
           s\<lparr>e234 := plus_eq fp (e234 s) (advance fp (clk (ticks s + 1)) (pretime s) (f64 fp 1000)),
              drawn := drawn s @ [DrawPrimitive g_pVB 18
                (Mul (RotationY (f32 fp (- quarter fp (clk (ticks s))))) (Translation (e234 s) (f32 fp (- f64 fp 1.5)) (flit fp 0)))],
              squarePos := (squarePos s)[nat (index s) :=
                ((plus_eq fp (e234 s) (advance fp (clk (ticks s + 1)) (pretime s) (f64 fp 1000))), f32 fp (- f64 fp 1.5), 0)],
              index := index s + 1,
              e4_r := - f32 fp (quarter fp (clk (ticks s + 3))),
              ticks := ticks s + 4\<rparr>
         else
           s\<lparr>e234 := plus_eq fp (e234 s) (advance fp (clk (ticks s + 1)) (pretime s) (f64 fp 1000)),
              drawn := drawn s @ [DrawPrimitive g_pVB 18
                (Mul (RotationY (f32 fp (- quarter fp (clk (ticks s))))) (Translation (e234 s) (f32 fp (- f64 fp 1.5)) (flit fp 0)))],
              ticks := ticks s + 3\<rparr>)"
  by (simp add: e234_bottom_def step_defs tick_simps cong: if_cong)

lemma e234_bottom_keeps [simp]:
  "I1 (e234_bottom fp clk s) = I1 s"
  "I2 (e234_bottom fp clk s) = I2 s"
  "I3 (e234_bottom fp clk s) = I3 s"
  "K1 (e234_bottom fp clk s) = K1 s"
  "k2X (e234_bottom fp clk s) = k2X s"
  "k3X (e234_bottom fp clk s) = k3X s"
  "k2Y (e234_bottom fp clk s) = k2Y s"
  "k3Y (e234_bottom fp clk s) = k3Y s"
  "e1 (e234_bottom fp clk s) = e1 s"
  "p1 (e234_bottom fp clk s) = p1 s"
  "p2 (e234_bottom fp clk s) = p2 s"
  "i1_r (e234_bottom fp clk s) = i1_r s"
  "i2_r (e234_bottom fp clk s) = i2_r s"
  "i3_r (e234_bottom fp clk s) = i3_r s"
  "k1_r (e234_bottom fp clk s) = k1_r s"
  "k2_r (e234_bottom fp clk s) = k2_r s"
  "k3_r (e234_bottom fp clk s) = k3_r s"
  "e1_r (e234_bottom fp clk s) = e1_r s"
  "e2_r (e234_bottom fp clk s) = e2_r s"
  "e3_r (e234_bottom fp clk s) = e3_r s"
  "p1_r (e234_bottom fp clk s) = p1_r s"
  "p2_r (e234_bottom fp clk s) = p2_r s"
  "pretime (e234_bottom fp clk s) = pretime s"
  "endTime (e234_bottom fp clk s) = endTime s"
  "endGet (e234_bottom fp clk s) = endGet s"
  "compFlag (e234_bottom fp clk s) = compFlag s"
  by (simp_all add: e234_bottom_effect)

lemma e234_bottom_buffer [simp]:
  "length (squarePos (e234_bottom fp clk s)) = length (squarePos s)"
  "index s \<le> indexMax \<Longrightarrow> index (e234_bottom fp clk s) \<le> indexMax"
  "index s = indexMax \<Longrightarrow> index (e234_bottom fp clk s) = indexMax"
  "index s = indexMax \<Longrightarrow> squarePos (e234_bottom fp clk s) = squarePos s"
  "index s \<le> index (e234_bottom fp clk s)"
  by (simp_all add: e234_bottom_effect)

lemma actor_e234_keeps [simp]:
  "I1 (actor_e234 fp clk s) = I1 s"
  "I2 (actor_e234 fp clk s) = I2 s"
  "I3 (actor_e234 fp clk s) = I3 s"
  "K1 (actor_e234 fp clk s) = K1 s"
  "k2X (actor_e234 fp clk s) = k2X s"
  "k3X (actor_e234 fp clk s) = k3X s"
  "k2Y (actor_e234 fp clk s) = k2Y s"
  "k3Y (actor_e234 fp clk s) = k3Y s"
  "e1 (actor_e234 fp clk s) = e1 s"
  "p1 (actor_e234 fp clk s) = p1 s"
  "p2 (actor_e234 fp clk s) = p2 s"
  "i1_r (actor_e234 fp clk s) = i1_r s"
  "i2_r (actor_e234 fp clk s) = i2_r s"
  "i3_r (actor_e234 fp clk s) = i3_r s"
  "k1_r (actor_e234 fp clk s) = k1_r s"
  "k2_r (actor_e234 fp clk s) = k2_r s"
  "k3_r (actor_e234 fp clk s) = k3_r s"
  "e1_r (actor_e234 fp clk s) = e1_r s"
  "p1_r (actor_e234 fp clk s) = p1_r s"
  "p2_r (actor_e234 fp clk s) = p2_r s"
  "pretime (actor_e234 fp clk s) = pretime s"
  "endTime (actor_e234 fp clk s) = endTime s"
  "endGet (actor_e234 fp clk s) = endGet s"
  by (simp_all add: actor_e234_def)

lemma actor_e234_buffer [simp]:
  "length (squarePos (actor_e234 fp clk s)) = length (squarePos s)"
  "index s \<le> indexMax \<Longrightarrow> index (actor_e234 fp clk s) \<le> indexMax"
  "index s = indexMax \<Longrightarrow> index (actor_e234 fp clk s) = indexMax"
  "index s = indexMax \<Longrightarrow> squarePos (actor_e234 fp clk s) = squarePos s"
  by (simp_all add: actor_e234_def)

lemma actor_e234_index_mono [simp]: "index s \<le> index (actor_e234 fp clk s)"
proof -
  have "index s \<le> index (e234_top fp clk s)"
    by simp
  also have "\<dots> \<le> index (e234_middle fp clk (e234_top fp clk s))"
    by simp
  also have "\<dots> \<le> index (e234_bottom fp clk (e234_middle fp clk (e234_top fp clk s)))"
    by simp
  finally show ?thesis
    by (simp add: actor_e234_def)
qed

lemma actor_e234_flags:
  "compFlag (actor_e234 fp clk s) = (if e234 s \<le> f64 fp 1.8 then compFlag s else (compFlag s)[7 := True, 8 := True, 9 := True])"
  by (simp add: actor_e234_def)

lemma actor_e234_stopped:
  "\<not> e234 s \<le> f64 fp 1.8 \<Longrightarrow> actor_e234 fp clk s = s\<lparr>compFlag := (compFlag s)[7 := True, 8 := True, 9 := True]\<rparr>"
  by (simp add: actor_e234_def)

lemma actor_p1_effect:
  "actor_p1 fp clk s =
     (if - f64 fp 1.7 \<le> p1 s then
        (if quarter_turn fp (p1_r s) (clk (ticks s + 2)) \<and> index s < indexMax then
           s\<lparr>p1 := minus_eq fp (p1 s) (advance fp (clk (ticks s + 1)) (pretime s) (f64 fp 1000)),
              drawn := drawn s @ [DrawPrimitive g_pVB 18
                (Mul (RotationX (f32 fp (- quarter fp (clk (ticks s))))) (Translation (flit fp 2.3) (p1 s) (flit fp 0)))],
              squarePos := (squarePos s)[nat (index s) :=
                (flit fp 2.3, (minus_eq fp (p1 s) (advance fp (clk (ticks s + 1)) (pretime s) (f64 fp 1000))), 0)],
              index := index s + 1,
              p1_r := - f32 fp (quarter fp (clk (ticks s + 3))),
              ticks := ticks s + 4\<rparr>
         else
           s\<lparr>p1 := minus_eq fp (p1 s) (advance fp (clk (ticks s + 1)) (pretime s) (f64 fp 1000)),
              drawn := drawn s @ [DrawPrimitive g_pVB 18
                (Mul (RotationX (f32 fp (- quarter fp (clk (ticks s))))) (Translation (flit fp 2.3) (p1 s) (flit fp 0)))],
              ticks := ticks s + 3\<rparr>)
      else s\<lparr>compFlag := (compFlag s)[10 := True]\<rparr>)"
  by (simp add: actor_p1_def step_defs tick_simps cong: if_cong)

lemma actor_p1_keeps [simp]:
  "I1 (actor_p1 fp clk s) = I1 s"
  "I2 (actor_p1 fp clk s) = I2 s"
  "I3 (actor_p1 fp clk s) = I3 s"
  "K1 (actor_p1 fp clk s) = K1 s"
  "k2X (actor_p1 fp clk s) = k2X s"
  "k3X (actor_p1 fp clk s) = k3X s"
  "k2Y (actor_p1 fp clk s) = k2Y s"
  "k3Y (actor_p1 fp clk s) = k3Y s"
  "e1 (actor_p1 fp clk s) = e1 s"
  "e234 (actor_p1 fp clk s) = e234 s"
  "p2 (actor_p1 fp clk s) = p2 s"
  "i1_r (actor_p1 fp clk s) = i1_r s"
  "i2_r (actor_p1 fp clk s) = i2_r s"
  "i3_r (actor_p1 fp clk s) = i3_r s"
  "k1_r (actor_p1 fp clk s) = k1_r s"
  "k2_r (actor_p1 fp clk s) = k2_r s"
  "k3_r (actor_p1 fp clk s) = k3_r s"
  "e1_r (actor_p1 fp clk s) = e1_r s"
  "e2_r (actor_p1 fp clk s) = e2_r s"
  "e3_r (actor_p1 fp clk s) = e3_r s"
  "e4_r (actor_p1 fp clk s) = e4_r s"
  "p2_r (actor_p1 fp clk s) = p2_r s"
  "pretime (actor_p1 fp clk s) = pretime s"
  "endTime (actor_p1 fp clk s) = endTime s"
  "endGet (actor_p1 fp clk s) = endGet s"
  by (simp_all add: actor_p1_effect)

lemma actor_p1_buffer [simp]:
  "length (squarePos (actor_p1 fp clk s)) = length (squarePos s)"
  "index s \<le> indexMax \<Longrightarrow> index (actor_p1 fp clk s) \<le> indexMax"
  "index s = indexMax \<Longrightarrow> index (actor_p1 fp clk s) = indexMax"
  "index s = indexMax \<Longrightarrow> squarePos (actor_p1 fp clk s) = squarePos s"
  "index s \<le> index (actor_p1 fp clk s)"
  by (simp_all add: actor_p1_effect)

lemma actor_p1_flags:
  "compFlag (actor_p1 fp clk s) = (if - f64 fp 1.7 \<le> p1 s then compFlag s else (compFlag s)[10 := True])"
  by (simp add: actor_p1_effect)

lemma actor_p1_stopped:
  "\<not> - f64 fp 1.7 \<le> p1 s \<Longrightarrow> actor_p1 fp clk s = s\<lparr>compFlag := (compFlag s)[10 := True]\<rparr>"
  by (simp add: actor_p1_effect)

lemma actor_p2_effect:
  "actor_p2 fp clk s =
     (if - f64 fp 0.01 \<le> fcos fp (p2 s) then
        (if quarter_turn fp (p2_r s) (clk (ticks s + 2)) \<and> index s < indexMax then
           s\<lparr>p2 := minus_eq fp (p2 s) (advance fp (clk (ticks s + 1)) (pretime s) (f64 fp 1000)),
              drawn := drawn s @ [DrawPrimitive g_pVB 18
                (Mul (Mul (RotationX (f32 fp (- quarter fp (clk (ticks s))))) (RotationZ (p2 s))) (Translation (arc_x fp (p2 s)) (arc_y fp (p2 s)) (flit fp 0)))],
              squarePos := (squarePos s)[nat (index s) :=
                (arc_x fp (minus_eq fp (p2 s) (advance fp (clk (ticks s + 1)) (pretime s) (f64 fp 1000))), arc_y fp (minus_eq fp (p2 s) (advance fp (clk (ticks s + 1)) (pretime s) (f64 fp 1000))), minus_eq fp (p2 s) (advance fp (clk (ticks s + 1)) (pretime s) (f64 fp 1000)))],
              index := index s + 1,
              p2_r := - f32 fp (quarter fp (clk (ticks s + 3))),
              ticks := ticks s + 4\<rparr>
         else
           s\<lparr>p2 := minus_eq fp (p2 s) (advance fp (clk (ticks s + 1)) (pretime s) (f64 fp 1000)),
              drawn := drawn s @ [DrawPrimitive g_pVB 18
                (Mul (Mul (RotationX (f32 fp (- quarter fp (clk (ticks s))))) (RotationZ (p2 s))) (Translation (arc_x fp (p2 s)) (arc_y fp (p2 s)) (flit fp 0)))],
              ticks := ticks s + 3\<rparr>)
      else s\<lparr>compFlag := (compFlag s)[11 := True]\<rparr>)"
  by (simp add: actor_p2_def step_defs tick_simps cong: if_cong)

lemma actor_p2_keeps [simp]:
  "I1 (actor_p2 fp clk s) = I1 s"
  "I2 (actor_p2 fp clk s) = I2 s"
  "I3 (actor_p2 fp clk s) = I3 s"
  "K1 (actor_p2 fp clk s) = K1 s"
  "k2X (actor_p2 fp clk s) = k2X s"
  "k3X (actor_p2 fp clk s) = k3X s"
  "k2Y (actor_p2 fp clk s) = k2Y s"
  "k3Y (actor_p2 fp clk s) = k3Y s"
  "e1 (actor_p2 fp clk s) = e1 s"
  "e234 (actor_p2 fp clk s) = e234 s"
  "p1 (actor_p2 fp clk s) = p1 s"
  "i1_r (actor_p2 fp clk s) = i1_r s"
  "i2_r (actor_p2 fp clk s) = i2_r s"
  "i3_r (actor_p2 fp clk s) = i3_r s"
  "k1_r (actor_p2 fp clk s) = k1_r s"
  "k2_r (actor_p2 fp clk s) = k2_r s"
  "k3_r (actor_p2 fp clk s) = k3_r s"
  "e1_r (actor_p2 fp clk s) = e1_r s"
  "e2_r (actor_p2 fp clk s) = e2_r s"
  "e3_r (actor_p2 fp clk s) = e3_r s"
  "e4_r (actor_p2 fp clk s) = e4_r s"
  "p1_r (actor_p2 fp clk s) = p1_r s"
  "pretime (actor_p2 fp clk s) = pretime s"
  "endTime (actor_p2 fp clk s) = endTime s"
  "endGet (actor_p2 fp clk s) = endGet s"
  by (simp_all add: actor_p2_effect)

lemma actor_p2_buffer [simp]:
  "length (squarePos (actor_p2 fp clk s)) = length (squarePos s)"
  "index s \<le> indexMax \<Longrightarrow> index (actor_p2 fp clk s) \<le> indexMax"
  "index s = indexMax \<Longrightarrow> index (actor_p2 fp clk s) = indexMax"
  "index s = indexMax \<Longrightarrow> squarePos (actor_p2 fp clk s) = squarePos s"
  "index s \<le> index (actor_p2 fp clk s)"
  by (simp_all add: actor_p2_effect)

lemma actor_p2_flags:
  "compFlag (actor_p2 fp clk s) = (if - f64 fp 0.01 \<le> fcos fp (p2 s) then compFlag s else (compFlag s)[11 := True])"
  by (simp add: actor_p2_effect)

lemma actor_p2_stopped:
  "\<not> - f64 fp 0.01 \<le> fcos fp (p2 s) \<Longrightarrow> actor_p2 fp clk s = s\<lparr>compFlag := (compFlag s)[11 := True]\<rparr>"
  by (simp add: actor_p2_effect)

section \<open>The scene, the gate and the invariant\<close>

lemma Clear_keeps [simp]:
  "compFlag (Clear s) = compFlag s" "squarePos (Clear s) = squarePos s" "index (Clear s) = index s"
  "ticks (Clear s) = ticks s" "pretime (Clear s) = pretime s" "endTime (Clear s) = endTime s"
  "endGet (Clear s) = endGet s" "position i (Clear s) = position i s" "phase i (Clear s) = phase i s"
  "moving fp i (Clear s) = moving fp i s" "drawn (Clear s) = []"
  by (simp_all add: Clear_def position_def phase_def moving_def)

lemma static_quads_keeps [simp]:
  "compFlag (static_quads fp s) = compFlag s" "squarePos (static_quads fp s) = squarePos s"
  "index (static_quads fp s) = index s" "ticks (static_quads fp s) = ticks s"
  "pretime (static_quads fp s) = pretime s" "endTime (static_quads fp s) = endTime s"
  "endGet (static_quads fp s) = endGet s" "position i (static_quads fp s) = position i s"
  "phase i (static_quads fp s) = phase i s" "moving fp' i (static_quads fp s) = moving fp' i s"
  by (simp_all add: static_quads_def draw_def position_def phase_def moving_def)

lemma trail_quads_keeps [simp]:
  "compFlag (trail_quads fp s) = compFlag s" "squarePos (trail_quads fp s) = squarePos s"
  "index (trail_quads fp s) = index s" "ticks (trail_quads fp s) = ticks s"
  "pretime (trail_quads fp s) = pretime s" "endTime (trail_quads fp s) = endTime s"
  "endGet (trail_quads fp s) = endGet s" "position i (trail_quads fp s) = position i s"
  "phase i (trail_quads fp s) = phase i s" "moving fp' i (trail_quads fp s) = moving fp' i s"
  by (simp_all add: trail_quads_def position_def phase_def moving_def)

lemma store_pretime_keeps [simp]:
  "compFlag (store_pretime fp clk s) = compFlag s" "squarePos (store_pretime fp clk s) = squarePos s"
  "index (store_pretime fp clk s) = index s" "ticks (store_pretime fp clk s) = ticks s + 1"
  "pretime (store_pretime fp clk s) = f32 fp (real (unat (clk (ticks s))))"
  "endTime (store_pretime fp clk s) = endTime s" "endGet (store_pretime fp clk s) = endGet s"
  "drawn (store_pretime fp clk s) = drawn s"
  "position i (store_pretime fp clk s) = position i s" "phase i (store_pretime fp clk s) = phase i s"
  "moving fp' i (store_pretime fp clk s) = moving fp' i s"
  by (simp_all add: store_pretime_def timeGetTime_def position_def phase_def moving_def)

lemma latch_keeps [simp]:
  "compFlag (latch fp clk s) = compFlag s" "squarePos (latch fp clk s) = squarePos s"
  "index (latch fp clk s) = index s" "pretime (latch fp clk s) = pretime s"
  "drawn (latch fp clk s) = drawn s" "endGet (latch fp clk s)"
  "position i (latch fp clk s) = position i s" "phase i (latch fp clk s) = phase i s"
  "moving fp' i (latch fp clk s) = moving fp' i s"
  by (simp_all add: latch_def timeGetTime_def position_def phase_def moving_def)

lemma latch_endTime:
  "endTime (latch fp clk s) = (if endGet s then endTime s else f32 fp (real (unat (clk (ticks s)))))"
  "ticks (latch fp clk s) = (if endGet s then ticks s else ticks s + 1)"
  by (simp_all add: latch_def timeGetTime_def)

lemma completion_gate_effect:
  "completion_gate fp clk s =
     (if reset_due fp clk s then reset fp ((latch fp clk s)\<lparr>ticks := ticks (latch fp clk s) + 1\<rparr>)
      else if 12 \<le> count_flags 12 0 (compFlag s) 0
           then (latch fp clk s)\<lparr>ticks := ticks (latch fp clk s) + 1\<rparr>
      else s)"
  by (simp add: completion_gate_def reset_due_def timeGetTime_def Let_def)

lemma move_actors_rule:
  assumes "Q s"
    and "\<And>s. Q s \<Longrightarrow> Q (actor_I1 fp clk s)" and "\<And>s. Q s \<Longrightarrow> Q (actor_I2 fp clk s)"
    and "\<And>s. Q s \<Longrightarrow> Q (actor_I3 fp clk s)" and "\<And>s. Q s \<Longrightarrow> Q (actor_K1 fp clk s)"
    and "\<And>s. Q s \<Longrightarrow> Q (actor_k2 fp clk s)" and "\<And>s. Q s \<Longrightarrow> Q (actor_k3 fp clk s)"
    and "\<And>s. Q s \<Longrightarrow> Q (actor_e1 fp clk s)" and "\<And>s. Q s \<Longrightarrow> Q (actor_e234 fp clk s)"
    and "\<And>s. Q s \<Longrightarrow> Q (actor_p1 fp clk s)" and "\<And>s. Q s \<Longrightarrow> Q (actor_p2 fp clk s)"
  shows "Q (move_actors fp clk s)"
  unfolding move_actors_def Let_def
  by (intro assms(2-)) (rule assms(1))

lemma actor_I1_index_nonneg [simp]: "0 \<le> index s \<Longrightarrow> 0 \<le> index (actor_I1 fp clk s)"
  using actor_I1_buffer(5) [of s fp clk] by linarith

lemma actor_I2_index_nonneg [simp]: "0 \<le> index s \<Longrightarrow> 0 \<le> index (actor_I2 fp clk s)"
  using actor_I2_buffer(5) [of s fp clk] by linarith

lemma actor_I3_index_nonneg [simp]: "0 \<le> index s \<Longrightarrow> 0 \<le> index (actor_I3 fp clk s)"
  using actor_I3_buffer(5) [of s fp clk] by linarith

lemma actor_K1_index_nonneg [simp]: "0 \<le> index s \<Longrightarrow> 0 \<le> index (actor_K1 fp clk s)"
  using actor_K1_buffer(5) [of s fp clk] by linarith

lemma actor_k2_index_nonneg [simp]: "0 \<le> index s \<Longrightarrow> 0 \<le> index (actor_k2 fp clk s)"
  using actor_k2_buffer(5) [of s fp clk] by linarith

lemma actor_k3_index_nonneg [simp]: "0 \<le> index s \<Longrightarrow> 0 \<le> index (actor_k3 fp clk s)"
  using actor_k3_buffer(5) [of s fp clk] by linarith

lemma actor_e1_index_nonneg [simp]: "0 \<le> index s \<Longrightarrow> 0 \<le> index (actor_e1 fp clk s)"
  using actor_e1_buffer(5) [of s fp clk] by linarith

lemma actor_e234_index_nonneg [simp]: "0 \<le> index s \<Longrightarrow> 0 \<le> index (actor_e234 fp clk s)"
  using actor_e234_index_mono [of s fp clk] by linarith

lemma actor_p1_index_nonneg [simp]: "0 \<le> index s \<Longrightarrow> 0 \<le> index (actor_p1 fp clk s)"
  using actor_p1_buffer(5) [of s fp clk] by linarith

lemma actor_p2_index_nonneg [simp]: "0 \<le> index s \<Longrightarrow> 0 \<le> index (actor_p2 fp clk s)"
  using actor_p2_buffer(5) [of s fp clk] by linarith

lemma consistent_actor_I1: "consistent fp s \<Longrightarrow> consistent fp (actor_I1 fp clk s)"
  by (cases "I1 s \<le> - f64 fp 1.9")
     (simp_all add: consistent_def all_lt12 moving_def actor_I1_flags actor_I1_stopped)

lemma consistent_actor_I2: "consistent fp s \<Longrightarrow> consistent fp (actor_I2 fp clk s)"
  by (cases "- f64 fp 1.5 \<le> I2 s")
     (simp_all add: consistent_def all_lt12 moving_def actor_I2_flags actor_I2_stopped)

lemma consistent_actor_I3: "consistent fp s \<Longrightarrow> consistent fp (actor_I3 fp clk s)"
  by (cases "I3 s \<le> - f64 fp 1.9")
     (simp_all add: consistent_def all_lt12 moving_def actor_I3_flags actor_I3_stopped)

lemma consistent_actor_K1: "consistent fp s \<Longrightarrow> consistent fp (actor_K1 fp clk s)"
  by (cases "- f64 fp 1.7 \<le> K1 s")
     (simp_all add: consistent_def all_lt12 moving_def actor_K1_flags actor_K1_stopped)

lemma consistent_actor_k2: "consistent fp s \<Longrightarrow> consistent fp (actor_k2 fp clk s)"
  by (cases "k2X s \<le> 0")
     (simp_all add: consistent_def all_lt12 moving_def actor_k2_flags actor_k2_stopped)

lemma consistent_actor_k3: "consistent fp s \<Longrightarrow> consistent fp (actor_k3 fp clk s)"
  by (cases "k3X s \<le> 0")
     (simp_all add: consistent_def all_lt12 moving_def actor_k3_flags actor_k3_stopped)

lemma consistent_actor_e1: "consistent fp s \<Longrightarrow> consistent fp (actor_e1 fp clk s)"
  by (cases "- f64 fp 1.5 \<le> e1 s")
     (simp_all add: consistent_def all_lt12 moving_def actor_e1_flags actor_e1_stopped)

lemma consistent_actor_e234: "consistent fp s \<Longrightarrow> consistent fp (actor_e234 fp clk s)"
  by (cases "e234 s \<le> f64 fp 1.8")
     (simp_all add: consistent_def all_lt12 moving_def actor_e234_flags actor_e234_stopped)

lemma consistent_actor_p1: "consistent fp s \<Longrightarrow> consistent fp (actor_p1 fp clk s)"
  by (cases "- f64 fp 1.7 \<le> p1 s")
     (simp_all add: consistent_def all_lt12 moving_def actor_p1_flags actor_p1_stopped)

lemma consistent_actor_p2: "consistent fp s \<Longrightarrow> consistent fp (actor_p2 fp clk s)"
  by (cases "- f64 fp 0.01 \<le> fcos fp (p2 s)")
     (simp_all add: consistent_def all_lt12 moving_def actor_p2_flags actor_p2_stopped)

lemma frozen_actor_I1:
  assumes "consistent fp s" and "i < 12" and "compFlag s ! i"
  shows "compFlag (actor_I1 fp clk s) ! i \<and> position i (actor_I1 fp clk s) = position i s \<and>
         phase i (actor_I1 fp clk s) = phase i s"
proof (cases "I1 s \<le> - f64 fp 1.9")
  case True
  with assms(1) have "\<not> compFlag s ! 0"
    by (simp add: consistent_def all_lt12 moving_def)
  with assms(1) have "\<not> compFlag s ! 0"
    by (auto simp: consistent_def)
  with assms(3) lt12_cases [OF assms(2)] True show ?thesis
    by (auto simp: position_def phase_def actor_I1_flags)
next
  case False
  from assms(1) have "length (compFlag s) = 12"
    by (simp add: consistent_def)
  with assms(3) lt12_cases [OF assms(2)] False show ?thesis
    by (auto simp: position_def phase_def actor_I1_stopped nth_list_update)
qed

lemma frozen_actor_I2:
  assumes "consistent fp s" and "i < 12" and "compFlag s ! i"
  shows "compFlag (actor_I2 fp clk s) ! i \<and> position i (actor_I2 fp clk s) = position i s \<and>
         phase i (actor_I2 fp clk s) = phase i s"
proof (cases "- f64 fp 1.5 \<le> I2 s")
  case True
  with assms(1) have "\<not> compFlag s ! 1"
    by (simp add: consistent_def all_lt12 moving_def)
  with assms(1) have "\<not> compFlag s ! 1"
    by (auto simp: consistent_def)
  with assms(3) lt12_cases [OF assms(2)] True show ?thesis
    by (auto simp: position_def phase_def actor_I2_flags)
next
  case False
  from assms(1) have "length (compFlag s) = 12"
    by (simp add: consistent_def)
  with assms(3) lt12_cases [OF assms(2)] False show ?thesis
    by (auto simp: position_def phase_def actor_I2_stopped nth_list_update)
qed

lemma frozen_actor_I3:
  assumes "consistent fp s" and "i < 12" and "compFlag s ! i"
  shows "compFlag (actor_I3 fp clk s) ! i \<and> position i (actor_I3 fp clk s) = position i s \<and>
         phase i (actor_I3 fp clk s) = phase i s"
proof (cases "I3 s \<le> - f64 fp 1.9")
  case True
  with assms(1) have "\<not> compFlag s ! 2"
    by (simp add: consistent_def all_lt12 moving_def)
  with assms(1) have "\<not> compFlag s ! 2"
    by (auto simp: consistent_def)
  with assms(3) lt12_cases [OF assms(2)] True show ?thesis
    by (auto simp: position_def phase_def actor_I3_flags)
next
  case False
  from assms(1) have "length (compFlag s) = 12"
    by (simp add: consistent_def)
  with assms(3) lt12_cases [OF assms(2)] False show ?thesis
    by (auto simp: position_def phase_def actor_I3_stopped nth_list_update)
qed

lemma frozen_actor_K1:
  assumes "consistent fp s" and "i < 12" and "compFlag s ! i"
  shows "compFlag (actor_K1 fp clk s) ! i \<and> position i (actor_K1 fp clk s) = position i s \<and>
         phase i (actor_K1 fp clk s) = phase i s"
proof (cases "- f64 fp 1.7 \<le> K1 s")
  case True
  with assms(1) have "\<not> compFlag s ! 3"
    by (simp add: consistent_def all_lt12 moving_def)
  with assms(1) have "\<not> compFlag s ! 3"
    by (auto simp: consistent_def)
  with assms(3) lt12_cases [OF assms(2)] True show ?thesis
    by (auto simp: position_def phase_def actor_K1_flags)
next
  case False
  from assms(1) have "length (compFlag s) = 12"
    by (simp add: consistent_def)
  with assms(3) lt12_cases [OF assms(2)] False show ?thesis
    by (auto simp: position_def phase_def actor_K1_stopped nth_list_update)
qed

lemma frozen_actor_k2:
  assumes "consistent fp s" and "i < 12" and "compFlag s ! i"
  shows "compFlag (actor_k2 fp clk s) ! i \<and> position i (actor_k2 fp clk s) = position i s \<and>
         phase i (actor_k2 fp clk s) = phase i s"
proof (cases "k2X s \<le> 0")
  case True
  with assms(1) have "\<not> compFlag s ! 4"
    by (simp add: consistent_def all_lt12 moving_def)
  with assms(1) have "\<not> compFlag s ! 4"
    by (auto simp: consistent_def)
  with assms(3) lt12_cases [OF assms(2)] True show ?thesis
    by (auto simp: position_def phase_def actor_k2_flags)
next
  case False
  from assms(1) have "length (compFlag s) = 12"
    by (simp add: consistent_def)
  with assms(3) lt12_cases [OF assms(2)] False show ?thesis
    by (auto simp: position_def phase_def actor_k2_stopped nth_list_update)
qed

lemma frozen_actor_k3:
  assumes "consistent fp s" and "i < 12" and "compFlag s ! i"
  shows "compFlag (actor_k3 fp clk s) ! i \<and> position i (actor_k3 fp clk s) = position i s \<and>
         phase i (actor_k3 fp clk s) = phase i s"
proof (cases "k3X s \<le> 0")
  case True
  with assms(1) have "\<not> compFlag s ! 5"
    by (simp add: consistent_def all_lt12 moving_def)
  with assms(1) have "\<not> compFlag s ! 5"
    by (auto simp: consistent_def)
  with assms(3) lt12_cases [OF assms(2)] True show ?thesis
    by (auto simp: position_def phase_def actor_k3_flags)
next
  case False
  from assms(1) have "length (compFlag s) = 12"
    by (simp add: consistent_def)
  with assms(3) lt12_cases [OF assms(2)] False show ?thesis
    by (auto simp: position_def phase_def actor_k3_stopped nth_list_update)
qed

lemma frozen_actor_e1:
  assumes "consistent fp s" and "i < 12" and "compFlag s ! i"
  shows "compFlag (actor_e1 fp clk s) ! i \<and> position i (actor_e1 fp clk s) = position i s \<and>
         phase i (actor_e1 fp clk s) = phase i s"
proof (cases "- f64 fp 1.5 \<le> e1 s")
  case True
  with assms(1) have "\<not> compFlag s ! 6"
    by (simp add: consistent_def all_lt12 moving_def)
  with assms(1) have "\<not> compFlag s ! 6"
    by (auto simp: consistent_def)
  with assms(3) lt12_cases [OF assms(2)] True show ?thesis
    by (auto simp: position_def phase_def actor_e1_flags)
next
  case False
  from assms(1) have "length (compFlag s) = 12"
    by (simp add: consistent_def)
  with assms(3) lt12_cases [OF assms(2)] False show ?thesis
    by (auto simp: position_def phase_def actor_e1_stopped nth_list_update)
qed

lemma frozen_actor_e234:
  assumes "consistent fp s" and "i < 12" and "compFlag s ! i"
  shows "compFlag (actor_e234 fp clk s) ! i \<and> position i (actor_e234 fp clk s) = position i s \<and>
         phase i (actor_e234 fp clk s) = phase i s"
proof (cases "e234 s \<le> f64 fp 1.8")
  case True
  with assms(1) have "\<not> compFlag s ! 7"
    by (simp add: consistent_def all_lt12 moving_def)
  with assms(1) have "\<not> compFlag s ! 7 \<and> \<not> compFlag s ! 8 \<and> \<not> compFlag s ! 9"
    by (auto simp: consistent_def)
  with assms(3) lt12_cases [OF assms(2)] True show ?thesis
    by (auto simp: position_def phase_def actor_e234_flags)
next
  case False
  from assms(1) have "length (compFlag s) = 12"
    by (simp add: consistent_def)
  with assms(3) lt12_cases [OF assms(2)] False show ?thesis
    by (auto simp: position_def phase_def actor_e234_stopped nth_list_update)
qed

lemma frozen_actor_p1:
  assumes "consistent fp s" and "i < 12" and "compFlag s ! i"
  shows "compFlag (actor_p1 fp clk s) ! i \<and> position i (actor_p1 fp clk s) = position i s \<and>
         phase i (actor_p1 fp clk s) = phase i s"
proof (cases "- f64 fp 1.7 \<le> p1 s")
  case True
  with assms(1) have "\<not> compFlag s ! 10"
    by (simp add: consistent_def all_lt12 moving_def)
  with assms(1) have "\<not> compFlag s ! 10"
    by (auto simp: consistent_def)
  with assms(3) lt12_cases [OF assms(2)] True show ?thesis
    by (auto simp: position_def phase_def actor_p1_flags)
next
  case False
  from assms(1) have "length (compFlag s) = 12"
    by (simp add: consistent_def)
  with assms(3) lt12_cases [OF assms(2)] False show ?thesis
    by (auto simp: position_def phase_def actor_p1_stopped nth_list_update)
qed

lemma frozen_actor_p2:
  assumes "consistent fp s" and "i < 12" and "compFlag s ! i"
  shows "compFlag (actor_p2 fp clk s) ! i \<and> position i (actor_p2 fp clk s) = position i s \<and>
         phase i (actor_p2 fp clk s) = phase i s"
proof (cases "- f64 fp 0.01 \<le> fcos fp (p2 s)")
  case True
  with assms(1) have "\<not> compFlag s ! 11"
    by (simp add: consistent_def all_lt12 moving_def)
  with assms(1) have "\<not> compFlag s ! 11"
    by (auto simp: consistent_def)
  with assms(3) lt12_cases [OF assms(2)] True show ?thesis
    by (auto simp: position_def phase_def actor_p2_flags)
next
  case False
  from assms(1) have "length (compFlag s) = 12"
    by (simp add: consistent_def)
  with assms(3) lt12_cases [OF assms(2)] False show ?thesis
    by (auto simp: position_def phase_def actor_p2_stopped nth_list_update)
qed

lemma consistent_init: "consistent fp (init_state fp clk)"
  by (simp add: consistent_def init_state_def indexMax_def)

lemma consistent_move_actors: "consistent fp s \<Longrightarrow> consistent fp (move_actors fp clk s)"
  by (rule move_actors_rule [where Q = "consistent fp"])
     (simp_all add: consistent_actor_I1 consistent_actor_I2 consistent_actor_I3 consistent_actor_K1
        consistent_actor_k2 consistent_actor_k3 consistent_actor_e1 consistent_actor_e234
        consistent_actor_p1 consistent_actor_p2)

lemma ticks_update_keeps [simp]:
  "moving fp i (s\<lparr>ticks := n\<rparr>) = moving fp i s"
  "position i (s\<lparr>ticks := n\<rparr>) = position i s"
  "phase i (s\<lparr>ticks := n\<rparr>) = phase i s"
  by (simp_all add: moving_def position_def phase_def)

lemma consistent_scene:
  "consistent fp (Clear s) = consistent fp s"
  "consistent fp (static_quads fp' s) = consistent fp s"
  "consistent fp (trail_quads fp' s) = consistent fp s"
  "consistent fp (store_pretime fp' clk s) = consistent fp s"
  "consistent fp (latch fp' clk s) = consistent fp s"
  "consistent fp (s\<lparr>ticks := n\<rparr>) = consistent fp s"
  by (simp_all add: consistent_def)

lemma consistent_before_gate: "consistent fp s \<Longrightarrow> consistent fp (before_gate fp clk s)"
  by (simp add: before_gate_def consistent_scene consistent_move_actors)

lemma reset_flags:
  "length (compFlag s) = 12 \<Longrightarrow> compFlag (reset fp s) = replicate 12 False"
  "length (squarePos s) = 1000 \<Longrightarrow> squarePos (reset fp s) = replicate 1000 (0, 0, 0)"
  "index (reset fp s) = 0" "endGet (reset fp s) = False"
  "endTime (reset fp s) = endTime s" "pretime (reset fp s) = pretime s"
  "ticks (reset fp s) = ticks s" "drawn (reset fp s) = drawn s"
  by (simp_all add: reset_def fill_all)

lemma consistent_reset: "consistent fp s \<Longrightarrow> consistent fp (reset fp s)"
  by (simp add: consistent_def reset_flags indexMax_def)

lemma consistent_gate: "consistent fp s \<Longrightarrow> consistent fp (completion_gate fp clk s)"
  by (simp add: completion_gate_effect consistent_reset consistent_scene)

lemma consistent_Render: "consistent fp s \<Longrightarrow> consistent fp (Render fp clk scene_ok s)"
  by (simp add: Render_def consistent_gate consistent_before_gate consistent_scene)

lemma reachable_consistent: "reachable fp clk s \<Longrightarrow> consistent fp s"
  by (induction rule: reachable.induct) (simp_all add: consistent_init consistent_Render)

section \<open>C5: a resize message with height 0\<close>

text \<open>
  Claim C5 says that a resize event whose height field is 0 leaves the stored aspect ratio
  as it was. \<open>MsgProc\<close> has no such guard: \<open>WM_SIZE\<close> always stores \<open>width / height\<close>.
  With width 800 and height 0 the aspect \<open>1.6\<close> is replaced.
\<close>

theorem WM_SIZE_zero_height_counterexample:
  "MsgProc exact_fpu WM_SIZE 800 (Finite (8 / 5)) \<noteq> Finite (8 / 5)"
  by (simp add: MsgProc_def float_div_def)

text \<open>
  C5, as the code has it: on a resize event whose height field is 0 the stored aspect
  ratio is overwritten, whatever it was, by the quotient of the \<open>float\<close> division by
  zero: not-a-number when the width field is 0 as well, and plus infinity otherwise.
\<close>

theorem WM_SIZE_zero_height:
  "signed_drop_bit 16 lParam AND 0xFFFF = 0 \<Longrightarrow>
   MsgProc fp WM_SIZE lParam a = (if lParam AND 0xFFFF = 0 then NaN else PosInf)"
proof -
  assume h: "signed_drop_bit 16 lParam AND 0xFFFF = 0"
  have w: "lParam AND 0xFFFF \<noteq> 0 \<Longrightarrow> 0 < real (unat (lParam AND 0xFFFF))"
    by (metis of_nat_0_less_iff unat_gt_0)
  show ?thesis
    using h w
    by (cases "lParam AND 0xFFFF = 0") (simp_all add: MsgProc_def float_div_def Let_def)
qed

theorem WM_SIZE_zero_height_witness:
  "signed_drop_bit 16 (800 :: 64 word) AND 0xFFFF = 0 \<and>
   MsgProc exact_fpu WM_SIZE 800 (Finite (8 / 5)) = PosInf"
  using WM_SIZE_zero_height [of 800 exact_fpu "Finite (8 / 5)"] by simp

end
